theory Spec2Isabelle
  imports Complex_Main "HOL-Library.Word"
begin

unbundle bit_operations_syntax

section \<open>Data model of \<^verbatim>\<open>src/main.py\<close>\<close>

text \<open>
  The two tables. A row of \<^verbatim>\<open>drivers\<close> is a \<^verbatim>\<open>DriverDB\<close>, a row of \<^verbatim>\<open>laps\<close> a
  \<^verbatim>\<open>LapDB\<close>. The column \<^verbatim>\<open>lap_time\<close> is a \<^verbatim>\<open>Float\<close>; the program only stores and
  returns it and never computes with it, so it is modelled as a real number (the finite
  values of a float).
\<close>

record DriverDB =
  DriverDB_id :: string
  DriverDB_name :: string

record LapDB =
  LapDB_id :: string
  LapDB_lap_time :: real
  LapDB_track :: string
  LapDB_driver_id :: string

text \<open>
  The database: both tables as lists of rows in the order of insertion, which is the
  order in which a query without \<^verbatim>\<open>ORDER BY\<close> scans a table.
\<close>

record db =
  drivers :: "DriverDB list"
  laps :: "LapDB list"

definition empty_db :: db where
  "empty_db = \<lparr>drivers = [], laps = []\<rparr>"

text \<open>The Pydantic schemas of requests and responses.\<close>

record DriverBase =
  DriverBase_name :: string

type_synonym DriverCreate = DriverBase

type_synonym DriverUpdate = DriverBase

record Lap =
  Lap_id :: "string option"
  Lap_lap_time :: real
  Lap_track :: string

record Driver =
  Driver_id :: "string option"
  Driver_name :: string
  Driver_laps :: "Lap list"

record LapCreate =
  LapCreate_lap_time :: real
  LapCreate_track :: string

record LapUpdate =
  LapUpdate_lap_time :: real
  LapUpdate_track :: string

text \<open>
  What an endpoint can raise: the \<^verbatim>\<open>HTTPException\<close> of the source with its status code
  and detail, and the integrity error of a commit that would store a second row under a
  primary key already in its table.
\<close>

datatype error = HTTPException nat string | IntegrityError

abbreviation DriverNotFound :: error where
  "DriverNotFound \<equiv> HTTPException 404 ''Driver not found''"

abbreviation LapNotFound :: error where
  "LapNotFound \<equiv> HTTPException 404 ''Lap not found''"

section \<open>Identifiers: \<^verbatim>\<open>str(uuid.uuid4())\<close>\<close>

text \<open>
  The source draws every identifier from Python's standard library. \<^verbatim>\<open>uuid.uuid4()\<close>
  takes 16 random bytes, read here as the 128-bit number \<open>r\<close>, and forces the variant
  and version bits; \<^verbatim>\<open>str\<close> prints the 32 hexadecimal digits of the result in the
  groups 8-4-4-4-12. The random bytes are an input of every operation that creates a row.
\<close>

definition uuid4 :: "128 word \<Rightarrow> 128 word" where
  "uuid4 r =
     (((r AND NOT (push_bit 48 0xc000)) OR push_bit 48 0x8000)
        AND NOT (push_bit 64 0xf000)) OR push_bit 76 4"

definition hex_digit :: "128 word \<Rightarrow> nat \<Rightarrow> char" where
  "hex_digit w i = ''0123456789abcdef'' ! unat (drop_bit (4 * (31 - i)) w AND 15)"

definition hex32 :: "128 word \<Rightarrow> string" where
  "hex32 w = map (hex_digit w) [0..<32]"

definition UUID_str :: "128 word \<Rightarrow> string" where
  "UUID_str w =
     (let hex = hex32 w
      in take 8 hex @ ''-'' @ take 4 (drop 8 hex) @ ''-'' @ take 4 (drop 12 hex) @ ''-''
         @ take 4 (drop 16 hex) @ ''-'' @ drop 20 hex)"

definition new_uuid :: "128 word \<Rightarrow> string" where
  "new_uuid r = UUID_str (uuid4 r)"

section \<open>Queries and serialisation\<close>

text \<open>
  \<^verbatim>\<open>db.query(DriverDB).filter(DriverDB.id == driver_id).first()\<close> and
  \<^verbatim>\<open>db.query(LapDB).filter(LapDB.id == lap_id, LapDB.driver_id == driver_id).first()\<close>:
  the first row that passes the filter, or \<^verbatim>\<open>None\<close>.
\<close>

definition query_driver :: "db \<Rightarrow> string \<Rightarrow> DriverDB option" where
  "query_driver s driver_id = find (\<lambda>d. DriverDB_id d = driver_id) (drivers s)"

definition query_lap :: "db \<Rightarrow> string \<Rightarrow> string \<Rightarrow> LapDB option" where
  "query_lap s driver_id lap_id =
     find (\<lambda>l. LapDB_id l = lap_id \<and> LapDB_driver_id l = driver_id) (laps s)"

text \<open>
  The relationship \<^verbatim>\<open>DriverDB.laps\<close>: the rows of \<^verbatim>\<open>laps\<close> whose foreign key is the
  driver's primary key.
\<close>

definition relationship_laps :: "db \<Rightarrow> DriverDB \<Rightarrow> LapDB list" where
  "relationship_laps s driver = filter (\<lambda>l. LapDB_driver_id l = DriverDB_id driver) (laps s)"

text \<open>The response models, read from the rows (\<^verbatim>\<open>from_attributes = True\<close>).\<close>

definition to_Lap :: "LapDB \<Rightarrow> Lap" where
  "to_Lap l = \<lparr>Lap_id = Some (LapDB_id l), Lap_lap_time = LapDB_lap_time l,
     Lap_track = LapDB_track l\<rparr>"

definition to_Driver :: "db \<Rightarrow> DriverDB \<Rightarrow> Driver" where
  "to_Driver s d = \<lparr>Driver_id = Some (DriverDB_id d), Driver_name = DriverDB_name d,
     Driver_laps = map to_Lap (relationship_laps s d)\<rparr>"

section \<open>The endpoints\<close>

text \<open>
  Every endpoint takes the database and returns what it returns or raises, with the
  database as the commit left it. An endpoint that raises before its commit leaves the
  database as it found it; a commit that fails is rolled back when the session closes.
\<close>

text \<open>
  \<^verbatim>\<open>db.add\<close> and \<^verbatim>\<open>db.commit()\<close> insert the new row after the rows of its table; the
  insert fails, and stores nothing, when the table has a row with that primary key.
\<close>

definition create_driver :: "db \<Rightarrow> 128 word \<Rightarrow> DriverCreate \<Rightarrow> (error + Driver) \<times> db" where
  "create_driver s r driver =
     (let db_driver = \<lparr>DriverDB_id = new_uuid r, DriverDB_name = DriverBase_name driver\<rparr>
      in if DriverDB_id db_driver \<in> set (map DriverDB_id (drivers s))
         then (Inl IntegrityError, s)
         else (let s' = s\<lparr>drivers := drivers s @ [db_driver]\<rparr>
               in (Inr (to_Driver s' db_driver), s')))"

definition get_drivers :: "db \<Rightarrow> (error + Driver list) \<times> db" where
  "get_drivers s = (Inr (map (to_Driver s) (drivers s)), s)"

definition get_driver :: "db \<Rightarrow> string \<Rightarrow> (error + Driver) \<times> db" where
  "get_driver s driver_id =
     (case query_driver s driver_id of
        None \<Rightarrow> (Inl DriverNotFound, s)
      | Some driver \<Rightarrow> (Inr (to_Driver s driver), s))"

text \<open>
  \<^verbatim>\<open>update_driver\<close> assigns the name on the row it found and commits: an
  \<^verbatim>\<open>UPDATE\<close> of the rows with that primary key.
\<close>

definition update_driver :: "db \<Rightarrow> string \<Rightarrow> DriverUpdate \<Rightarrow> (error + Driver) \<times> db" where
  "update_driver s driver_id driver_update =
     (case query_driver s driver_id of
        None \<Rightarrow> (Inl DriverNotFound, s)
      | Some driver \<Rightarrow>
          (let driver' = driver\<lparr>DriverDB_name := DriverBase_name driver_update\<rparr>;
               s' = s\<lparr>drivers := map (\<lambda>d. if DriverDB_id d = DriverDB_id driver
                                           then d\<lparr>DriverDB_name := DriverBase_name driver_update\<rparr>
                                           else d) (drivers s)\<rparr>
           in (Inr (to_Driver s' driver'), s')))"

text \<open>
  \<^verbatim>\<open>delete_driver\<close>: the relationship's \<^verbatim>\<open>cascade="all, delete-orphan"\<close> deletes
  every lap of the driver's collection by its primary key, and the driver, in the one
  commit.
\<close>

definition delete_driver :: "db \<Rightarrow> string \<Rightarrow> (error + string) \<times> db" where
  "delete_driver s driver_id =
     (case query_driver s driver_id of
        None \<Rightarrow> (Inl DriverNotFound, s)
      | Some driver \<Rightarrow>
          (Inr ''Driver deleted'',
           s\<lparr>drivers := filter (\<lambda>d. DriverDB_id d \<noteq> DriverDB_id driver) (drivers s),
             laps := filter (\<lambda>l. LapDB_id l \<notin> set (map LapDB_id (relationship_laps s driver)))
                       (laps s)\<rparr>))"

definition create_lap :: "db \<Rightarrow> 128 word \<Rightarrow> string \<Rightarrow> LapCreate \<Rightarrow> (error + Lap) \<times> db" where
  "create_lap s r driver_id lap =
     (case query_driver s driver_id of
        None \<Rightarrow> (Inl DriverNotFound, s)
      | Some driver \<Rightarrow>
          (let db_lap = \<lparr>LapDB_id = new_uuid r, LapDB_lap_time = LapCreate_lap_time lap,
                          LapDB_track = LapCreate_track lap, LapDB_driver_id = driver_id\<rparr>
           in if LapDB_id db_lap \<in> set (map LapDB_id (laps s))
              then (Inl IntegrityError, s)
              else (Inr (to_Lap db_lap), s\<lparr>laps := laps s @ [db_lap]\<rparr>)))"

definition get_laps :: "db \<Rightarrow> string \<Rightarrow> (error + Lap list) \<times> db" where
  "get_laps s driver_id =
     (case query_driver s driver_id of
        None \<Rightarrow> (Inl DriverNotFound, s)
      | Some driver \<Rightarrow> (Inr (map to_Lap (relationship_laps s driver)), s))"

definition get_lap :: "db \<Rightarrow> string \<Rightarrow> string \<Rightarrow> (error + Lap) \<times> db" where
  "get_lap s driver_id lap_id =
     (case query_lap s driver_id lap_id of
        None \<Rightarrow> (Inl LapNotFound, s)
      | Some lap \<Rightarrow> (Inr (to_Lap lap), s))"

definition update_lap :: "db \<Rightarrow> string \<Rightarrow> string \<Rightarrow> LapUpdate \<Rightarrow> (error + Lap) \<times> db" where
  "update_lap s driver_id lap_id lap_update =
     (case query_lap s driver_id lap_id of
        None \<Rightarrow> (Inl LapNotFound, s)
      | Some lap \<Rightarrow>
          (Inr (to_Lap (lap\<lparr>LapDB_lap_time := LapUpdate_lap_time lap_update,
                            LapDB_track := LapUpdate_track lap_update\<rparr>)),
           s\<lparr>laps := map (\<lambda>l. if LapDB_id l = LapDB_id lap
                               then l\<lparr>LapDB_lap_time := LapUpdate_lap_time lap_update,
                                      LapDB_track := LapUpdate_track lap_update\<rparr>
                               else l) (laps s)\<rparr>))"

definition delete_lap :: "db \<Rightarrow> string \<Rightarrow> string \<Rightarrow> (error + string) \<times> db" where
  "delete_lap s driver_id lap_id =
     (case query_lap s driver_id lap_id of
        None \<Rightarrow> (Inl LapNotFound, s)
      | Some lap \<Rightarrow>
          (Inr ''Lap deleted'',
           s\<lparr>laps := filter (\<lambda>l. LapDB_id l \<noteq> LapDB_id lap) (laps s)\<rparr>))"

text \<open>
  The start of the process (\<^verbatim>\<open>lifespan\<close>): when the table of drivers is empty, one
  driver and two laps are stored in one commit.
\<close>

definition lifespan :: "db \<Rightarrow> 128 word \<Rightarrow> 128 word \<Rightarrow> 128 word \<Rightarrow> (error + unit) \<times> db" where
  "lifespan s r0 r1 r2 =
     (if length (drivers s) = 0
      then (let driver = \<lparr>DriverDB_id = new_uuid r0, DriverDB_name = ''Lewis Hamilton''\<rparr>;
                lap1 = \<lparr>LapDB_id = new_uuid r1, LapDB_lap_time = 85.4,
                        LapDB_track = ''Silverstone'', LapDB_driver_id = DriverDB_id driver\<rparr>;
                lap2 = \<lparr>LapDB_id = new_uuid r2, LapDB_lap_time = 86.2,
                        LapDB_track = ''Monza'', LapDB_driver_id = DriverDB_id driver\<rparr>
            in if LapDB_id lap1 \<in> set (map LapDB_id (laps s))
                  \<or> LapDB_id lap2 \<in> set (map LapDB_id (laps s))
                  \<or> LapDB_id lap1 = LapDB_id lap2
               then (Inl IntegrityError, s)
               else (Inr (), s\<lparr>drivers := drivers s @ [driver],
                               laps := laps s @ [lap1, lap2]\<rparr>))
      else (Inr (), s))"

section \<open>Sequences of operations\<close>

datatype op =
    Lifespan "128 word" "128 word" "128 word"
  | CreateDriver "128 word" DriverCreate
  | GetDrivers
  | GetDriver string
  | UpdateDriver string DriverUpdate
  | DeleteDriver string
  | CreateLap "128 word" string LapCreate
  | GetLaps string
  | GetLap string string
  | UpdateLap string string LapUpdate
  | DeleteLap string string

datatype response =
    Started
  | ADriver Driver
  | Drivers "Driver list"
  | ALap Lap
  | Laps "Lap list"
  | Detail string

fun step :: "db \<Rightarrow> op \<Rightarrow> (error + response) \<times> db" where
  "step s (Lifespan r0 r1 r2) = apfst (map_sum id (\<lambda>_. Started)) (lifespan s r0 r1 r2)"
| "step s (CreateDriver r driver) = apfst (map_sum id ADriver) (create_driver s r driver)"
| "step s GetDrivers = apfst (map_sum id Drivers) (get_drivers s)"
| "step s (GetDriver driver_id) = apfst (map_sum id ADriver) (get_driver s driver_id)"
| "step s (UpdateDriver driver_id driver_update) =
     apfst (map_sum id ADriver) (update_driver s driver_id driver_update)"
| "step s (DeleteDriver driver_id) = apfst (map_sum id Detail) (delete_driver s driver_id)"
| "step s (CreateLap r driver_id lap) = apfst (map_sum id ALap) (create_lap s r driver_id lap)"
| "step s (GetLaps driver_id) = apfst (map_sum id Laps) (get_laps s driver_id)"
| "step s (GetLap driver_id lap_id) = apfst (map_sum id ALap) (get_lap s driver_id lap_id)"
| "step s (UpdateLap driver_id lap_id lap_update) =
     apfst (map_sum id ALap) (update_lap s driver_id lap_id lap_update)"
| "step s (DeleteLap driver_id lap_id) = apfst (map_sum id Detail) (delete_lap s driver_id lap_id)"

definition run :: "db \<Rightarrow> op list \<Rightarrow> db" where
  "run s ops = foldl (\<lambda>s' x. snd (step s' x)) s ops"

text \<open>The states the program can be in: from the empty store, after any operations.\<close>

inductive reachable :: "db \<Rightarrow> bool" where
  reachable_empty: "reachable empty_db"
| reachable_step: "reachable s \<Longrightarrow> reachable (snd (step s x))"

text \<open>
  The constraints on a state: primary keys are unique in each table, and every lap's
  foreign key is the primary key of a driver.
\<close>

definition pk_ok :: "db \<Rightarrow> bool" where
  "pk_ok s \<longleftrightarrow> distinct (map DriverDB_id (drivers s)) \<and> distinct (map LapDB_id (laps s))"

definition fk_ok :: "db \<Rightarrow> bool" where
  "fk_ok s \<longleftrightarrow> (\<forall>l \<in> set (laps s). LapDB_driver_id l \<in> set (map DriverDB_id (drivers s)))"

text \<open>
  Two example runs: the store after the first start, and after a second driver with one
  lap has been added to it.
\<close>

definition seeded :: db where
  "seeded = run empty_db [Lifespan 1 2 3]"

definition two_drivers :: db where
  "two_drivers = run empty_db
     [Lifespan 1 2 3,
      CreateDriver 4 \<lparr>DriverBase_name = ''Max Verstappen''\<rparr>,
      CreateLap 5 (new_uuid 4) \<lparr>LapCreate_lap_time = 78.1, LapCreate_track = ''Spa''\<rparr>]"

text \<open>A request that supplies a \<^verbatim>\<open>lap_time\<close> supplies a positive one.\<close>

fun positive_request :: "op \<Rightarrow> bool" where
  "positive_request (CreateLap r driver_id lap) = (0 < LapCreate_lap_time lap)"
| "positive_request (UpdateLap driver_id lap_id lap_update) = (0 < LapUpdate_lap_time lap_update)"
| "positive_request _ = True"

text \<open>A run with a negative \<^verbatim>\<open>lap_time\<close>.\<close>

definition negative_lap :: db where
  "negative_lap = run empty_db
     [CreateDriver 4 \<lparr>DriverBase_name = ''Max Verstappen''\<rparr>,
      CreateLap 5 (new_uuid 4) \<lparr>LapCreate_lap_time = - 78.1, LapCreate_track = ''Spa''\<rparr>]"

definition all_positive :: "db \<Rightarrow> bool" where
  "all_positive s \<longleftrightarrow> list_all (\<lambda>l. 0 < LapDB_lap_time l) (laps s)"

text \<open>The ids of the laps of a driver, in the order of the table.\<close>

definition lap_ids_of :: "db \<Rightarrow> string \<Rightarrow> string list" where
  "lap_ids_of s driver_id = map LapDB_id (filter (\<lambda>l. LapDB_driver_id l = driver_id) (laps s))"

section \<open>Identifiers\<close>

lemma length_hex32: "length (hex32 w) = 32"
  by (simp add: hex32_def)

lemma length_UUID_str: "length (UUID_str w) = 36"
  by (simp add: UUID_str_def Let_def length_hex32)

lemma length_new_uuid: "length (new_uuid r) = 36"
  by (simp add: new_uuid_def length_UUID_str)

lemma new_uuid_1: "new_uuid 1 = ''00000000-0000-4000-8000-000000000001''"
  by code_simp

lemma new_uuid_2: "new_uuid 2 = ''00000000-0000-4000-8000-000000000002''"
  by code_simp

lemma new_uuid_3: "new_uuid 3 = ''00000000-0000-4000-8000-000000000003''"
  by code_simp

lemma new_uuid_4: "new_uuid 4 = ''00000000-0000-4000-8000-000000000004''"
  by code_simp

lemma new_uuid_5: "new_uuid 5 = ''00000000-0000-4000-8000-000000000005''"
  by code_simp

section \<open>Queries, and what an error leaves behind\<close>

lemma query_driver_None: "query_driver s i = None \<longleftrightarrow> i \<notin> set (map DriverDB_id (drivers s))"
  by (auto simp: query_driver_def find_None_iff)

lemma query_driver_Some: "query_driver s i = Some d \<Longrightarrow> d \<in> set (drivers s) \<and> DriverDB_id d = i"
  by (auto simp: query_driver_def find_Some_iff)

lemma query_lap_None:
  "query_lap s i j = None \<longleftrightarrow> (\<forall>l \<in> set (laps s). LapDB_id l = j \<longrightarrow> LapDB_driver_id l \<noteq> i)"
  by (auto simp: query_lap_def find_None_iff)

lemma query_lap_Some:
  "query_lap s i j = Some l \<Longrightarrow> l \<in> set (laps s) \<and> LapDB_id l = j \<and> LapDB_driver_id l = i"
  by (auto simp: query_lap_def find_Some_iff)

lemma lifespan_error: "lifespan s r0 r1 r2 = (Inl e, s') \<Longrightarrow> s' = s"
  by (auto simp: lifespan_def Let_def split: if_splits)

lemma create_driver_error: "create_driver s r d = (Inl e, s') \<Longrightarrow> s' = s"
  by (auto simp: create_driver_def Let_def split: if_splits)

lemma get_drivers_same: "snd (get_drivers s) = s"
  by (simp add: get_drivers_def)

lemma get_driver_same: "snd (get_driver s i) = s"
  by (simp add: get_driver_def split: option.splits)

lemma update_driver_error: "update_driver s i u = (Inl e, s') \<Longrightarrow> s' = s"
  by (auto simp: update_driver_def Let_def split: option.splits)

lemma delete_driver_error: "delete_driver s i = (Inl e, s') \<Longrightarrow> s' = s"
  by (auto simp: delete_driver_def split: option.splits)

lemma create_lap_error: "create_lap s r i l = (Inl e, s') \<Longrightarrow> s' = s"
  by (auto simp: create_lap_def Let_def split: option.splits if_splits)

lemma get_laps_same: "snd (get_laps s i) = s"
  by (simp add: get_laps_def split: option.splits)

lemma get_lap_same: "snd (get_lap s i j) = s"
  by (simp add: get_lap_def split: option.splits)

lemma update_lap_error: "update_lap s i j u = (Inl e, s') \<Longrightarrow> s' = s"
  by (auto simp: update_lap_def split: option.splits)

lemma delete_lap_error: "delete_lap s i j = (Inl e, s') \<Longrightarrow> s' = s"
  by (auto simp: delete_lap_def split: option.splits)

lemma step_error: "fst (step s x) = Inl e \<Longrightarrow> snd (step s x) = s"
proof (cases x)
  case (Lifespan r0 r1 r2)
  assume "fst (step s x) = Inl e"
  with Lifespan show ?thesis
    by (cases "lifespan s r0 r1 r2"; cases "fst (lifespan s r0 r1 r2)") (auto dest: lifespan_error)
next
  case (CreateDriver r d)
  assume "fst (step s x) = Inl e"
  with CreateDriver show ?thesis
    by (cases "create_driver s r d"; cases "fst (create_driver s r d)") (auto dest: create_driver_error)
next
  case GetDrivers
  then show ?thesis by (simp add: get_drivers_same)
next
  case (GetDriver i)
  then show ?thesis by (simp add: get_driver_same)
next
  case (UpdateDriver i u)
  assume "fst (step s x) = Inl e"
  with UpdateDriver show ?thesis
    by (cases "update_driver s i u"; cases "fst (update_driver s i u)") (auto dest: update_driver_error)
next
  case (DeleteDriver i)
  assume "fst (step s x) = Inl e"
  with DeleteDriver show ?thesis
    by (cases "delete_driver s i"; cases "fst (delete_driver s i)") (auto dest: delete_driver_error)
next
  case (CreateLap r i l)
  assume "fst (step s x) = Inl e"
  with CreateLap show ?thesis
    by (cases "create_lap s r i l"; cases "fst (create_lap s r i l)") (auto dest: create_lap_error)
next
  case (GetLaps i)
  then show ?thesis by (simp add: get_laps_same)
next
  case (GetLap i j)
  then show ?thesis by (simp add: get_lap_same)
next
  case (UpdateLap i j u)
  assume "fst (step s x) = Inl e"
  with UpdateLap show ?thesis
    by (cases "update_lap s i j u"; cases "fst (update_lap s i j u)") (auto dest: update_lap_error)
next
  case (DeleteLap i j)
  assume "fst (step s x) = Inl e"
  with DeleteLap show ?thesis
    by (cases "delete_lap s i j"; cases "fst (delete_lap s i j)") (auto dest: delete_lap_error)
qed

section \<open>The constraints hold in every reachable state\<close>

lemma pk_ok_lifespan: "pk_ok s \<Longrightarrow> pk_ok (snd (lifespan s r0 r1 r2))"
  by (auto simp: lifespan_def pk_ok_def Let_def)

lemma pk_ok_create_driver: "pk_ok s \<Longrightarrow> pk_ok (snd (create_driver s r d))"
  by (auto simp: create_driver_def pk_ok_def Let_def)

lemma map_upd_ids: "map DriverDB_id (map (\<lambda>d. if P d then d\<lparr>DriverDB_name := n\<rparr> else d) xs) = map DriverDB_id xs"
  by (induction xs) auto

lemma map_upd_lap_ids:
  "map LapDB_id (map (\<lambda>l. if P l then l\<lparr>LapDB_lap_time := t, LapDB_track := k\<rparr> else l) xs) = map LapDB_id xs"
  by (induction xs) auto

lemma map_upd_lap_fks:
  "map LapDB_driver_id (map (\<lambda>l. if P l then l\<lparr>LapDB_lap_time := t, LapDB_track := k\<rparr> else l) xs) = map LapDB_driver_id xs"
  by (induction xs) auto

lemma update_driver_ids: "map DriverDB_id (drivers (snd (update_driver s i u))) = map DriverDB_id (drivers s)"
  by (simp add: update_driver_def Let_def map_upd_ids del: map_map split: option.splits)

lemma update_driver_laps: "laps (snd (update_driver s i u)) = laps s"
  by (simp add: update_driver_def Let_def split: option.splits)

lemma update_lap_ids: "map LapDB_id (laps (snd (update_lap s i j u))) = map LapDB_id (laps s)"
  by (simp add: update_lap_def map_upd_lap_ids del: map_map split: option.splits)

lemma update_lap_fks: "map LapDB_driver_id (laps (snd (update_lap s i j u))) = map LapDB_driver_id (laps s)"
  by (simp add: update_lap_def map_upd_lap_fks del: map_map split: option.splits)

lemma update_lap_drivers: "drivers (snd (update_lap s i j u)) = drivers s"
  by (simp add: update_lap_def split: option.splits)

lemma pk_ok_update_driver: "pk_ok s \<Longrightarrow> pk_ok (snd (update_driver s i u))"
  by (simp add: pk_ok_def update_driver_ids update_driver_laps)

lemma pk_ok_delete_driver: "pk_ok s \<Longrightarrow> pk_ok (snd (delete_driver s i))"
  by (auto simp: delete_driver_def pk_ok_def distinct_map_filter split: option.splits)

lemma pk_ok_create_lap: "pk_ok s \<Longrightarrow> pk_ok (snd (create_lap s r i l))"
  by (auto simp: create_lap_def pk_ok_def Let_def split: option.splits)

lemma pk_ok_update_lap: "pk_ok s \<Longrightarrow> pk_ok (snd (update_lap s i j u))"
  by (simp add: pk_ok_def update_lap_ids update_lap_drivers)

lemma pk_ok_delete_lap: "pk_ok s \<Longrightarrow> pk_ok (snd (delete_lap s i j))"
  by (auto simp: delete_lap_def pk_ok_def distinct_map_filter split: option.splits)

lemma pk_ok_step: "pk_ok s \<Longrightarrow> pk_ok (snd (step s x))"
  by (cases x)
    (simp_all add: pk_ok_lifespan pk_ok_create_driver get_drivers_same get_driver_same
      pk_ok_update_driver pk_ok_delete_driver pk_ok_create_lap get_laps_same get_lap_same
      pk_ok_update_lap pk_ok_delete_lap)

lemma fk_ok_lifespan: "fk_ok s \<Longrightarrow> fk_ok (snd (lifespan s r0 r1 r2))"
  by (auto simp: lifespan_def fk_ok_def Let_def)

lemma fk_ok_create_driver: "fk_ok s \<Longrightarrow> fk_ok (snd (create_driver s r d))"
  by (auto simp: create_driver_def fk_ok_def Let_def)

lemma fk_ok_update_driver: "fk_ok s \<Longrightarrow> fk_ok (snd (update_driver s i u))"
  by (simp add: fk_ok_def update_driver_ids update_driver_laps)

lemma fk_ok_delete_driver: "fk_ok s \<Longrightarrow> fk_ok (snd (delete_driver s i))"
  by (fastforce simp: delete_driver_def fk_ok_def relationship_laps_def split: option.splits)

lemma fk_ok_create_lap: "fk_ok s \<Longrightarrow> fk_ok (snd (create_lap s r i l))"
  by (auto simp: create_lap_def fk_ok_def Let_def split: option.splits dest!: query_driver_Some)

lemma fk_ok_update_lap: "fk_ok s \<Longrightarrow> fk_ok (snd (update_lap s i j u))"
proof -
  assume a: "fk_ok s"
  have "set (map LapDB_driver_id (laps (snd (update_lap s i j u)))) = set (map LapDB_driver_id (laps s))"
    by (simp only: update_lap_fks)
  then have "\<forall>l \<in> set (laps (snd (update_lap s i j u))). LapDB_driver_id l \<in> set (map LapDB_driver_id (laps s))"
    by (metis image_eqI list.set_map)
  with a show ?thesis
    unfolding fk_ok_def update_lap_drivers by auto
qed

lemma fk_ok_delete_lap: "fk_ok s \<Longrightarrow> fk_ok (snd (delete_lap s i j))"
  by (auto simp: delete_lap_def fk_ok_def split: option.splits)

lemma fk_ok_step: "fk_ok s \<Longrightarrow> fk_ok (snd (step s x))"
  by (cases x)
    (simp_all add: fk_ok_lifespan fk_ok_create_driver get_drivers_same get_driver_same
      fk_ok_update_driver fk_ok_delete_driver fk_ok_create_lap get_laps_same get_lap_same
      fk_ok_update_lap fk_ok_delete_lap)

lemma reachable_pk_ok: "reachable s \<Longrightarrow> pk_ok s"
  by (induction rule: reachable.induct) (simp_all add: pk_ok_step, simp add: pk_ok_def empty_db_def)

lemma reachable_fk_ok: "reachable s \<Longrightarrow> fk_ok s"
  by (induction rule: reachable.induct) (simp_all add: fk_ok_step, simp add: fk_ok_def empty_db_def)

lemma reachable_run: "reachable s \<Longrightarrow> reachable (run s ops)"
  unfolding run_def by (induction ops arbitrary: s) (simp_all add: reachable_step)

section \<open>The example runs, evaluated\<close>

lemmas uuids = new_uuid_1 new_uuid_2 new_uuid_3 new_uuid_4 new_uuid_5

lemma seeded_eq: "seeded =
  \<lparr>drivers = [\<lparr>DriverDB_id = ''00000000-0000-4000-8000-000000000001'', DriverDB_name = ''Lewis Hamilton''\<rparr>],
   laps = [\<lparr>LapDB_id = ''00000000-0000-4000-8000-000000000002'', LapDB_lap_time = 85.4,
            LapDB_track = ''Silverstone'', LapDB_driver_id = ''00000000-0000-4000-8000-000000000001''\<rparr>,
           \<lparr>LapDB_id = ''00000000-0000-4000-8000-000000000003'', LapDB_lap_time = 86.2,
            LapDB_track = ''Monza'', LapDB_driver_id = ''00000000-0000-4000-8000-000000000001''\<rparr>]\<rparr>"
  by (simp add: seeded_def run_def lifespan_def empty_db_def Let_def uuids)

lemma two_drivers_eq: "two_drivers =
  \<lparr>drivers = [\<lparr>DriverDB_id = ''00000000-0000-4000-8000-000000000001'', DriverDB_name = ''Lewis Hamilton''\<rparr>,
              \<lparr>DriverDB_id = ''00000000-0000-4000-8000-000000000004'', DriverDB_name = ''Max Verstappen''\<rparr>],
   laps = [\<lparr>LapDB_id = ''00000000-0000-4000-8000-000000000002'', LapDB_lap_time = 85.4,
            LapDB_track = ''Silverstone'', LapDB_driver_id = ''00000000-0000-4000-8000-000000000001''\<rparr>,
           \<lparr>LapDB_id = ''00000000-0000-4000-8000-000000000003'', LapDB_lap_time = 86.2,
            LapDB_track = ''Monza'', LapDB_driver_id = ''00000000-0000-4000-8000-000000000001''\<rparr>,
           \<lparr>LapDB_id = ''00000000-0000-4000-8000-000000000005'', LapDB_lap_time = 78.1,
            LapDB_track = ''Spa'', LapDB_driver_id = ''00000000-0000-4000-8000-000000000004''\<rparr>]\<rparr>"
  by (simp add: two_drivers_def run_def lifespan_def create_driver_def create_lap_def query_driver_def
      empty_db_def Let_def uuids)

lemma reachable_seeded: "reachable seeded"
  unfolding seeded_def by (rule reachable_run [OF reachable_empty])

lemma reachable_two_drivers: "reachable two_drivers"
  unfolding two_drivers_def by (rule reachable_run [OF reachable_empty])

section \<open>What the operations do\<close>

lemma cascade_by_owner:
  assumes "distinct (map LapDB_id xs)"
  shows "filter (\<lambda>l. LapDB_id l \<notin> set (map LapDB_id (filter (\<lambda>l. LapDB_driver_id l = D) xs))) xs
       = filter (\<lambda>l. LapDB_driver_id l \<noteq> D) xs"
proof (rule filter_cong [OF refl])
  fix l assume l: "l \<in> set xs"
  from assms have inj: "inj_on LapDB_id (set xs)"
    by (simp add: distinct_map)
  show "(LapDB_id l \<notin> set (map LapDB_id (filter (\<lambda>l. LapDB_driver_id l = D) xs)))
        = (LapDB_driver_id l \<noteq> D)"
  proof
    assume "LapDB_id l \<notin> set (map LapDB_id (filter (\<lambda>l. LapDB_driver_id l = D) xs))"
    with l show "LapDB_driver_id l \<noteq> D" by auto
  next
    assume n: "LapDB_driver_id l \<noteq> D"
    show "LapDB_id l \<notin> set (map LapDB_id (filter (\<lambda>l. LapDB_driver_id l = D) xs))"
    proof
      assume "LapDB_id l \<in> set (map LapDB_id (filter (\<lambda>l. LapDB_driver_id l = D) xs))"
      then obtain l' where "l' \<in> set xs" "LapDB_driver_id l' = D" "LapDB_id l' = LapDB_id l"
        by auto
      with inj l have "l' = l" by (auto dest: inj_onD)
      with \<open>LapDB_driver_id l' = D\<close> n show False by simp
    qed
  qed
qed

lemma delete_driver_found:
  assumes "pk_ok s" and "query_driver s D = Some driver"
  shows "delete_driver s D =
     (Inr ''Driver deleted'',
      s\<lparr>drivers := filter (\<lambda>d. DriverDB_id d \<noteq> D) (drivers s),
        laps := filter (\<lambda>l. LapDB_driver_id l \<noteq> D) (laps s)\<rparr>)"
proof -
  from assms(2) have i: "DriverDB_id driver = D"
    by (simp add: query_driver_Some)
  from assms(1) have "distinct (map LapDB_id (laps s))"
    by (simp add: pk_ok_def)
  then show ?thesis
    by (simp add: delete_driver_def assms(2) relationship_laps_def i cascade_by_owner del: set_map)
qed

lemma find_map_keep:
  assumes "\<And>x. P (f x) = P x"
  shows "find P (map f xs) = map_option f (find P xs)"
  using assms by (induction xs) auto

lemma update_driver_found:
  assumes "query_driver s i = Some driver"
  shows "update_driver s i u =
     (Inr (to_Driver s (driver\<lparr>DriverDB_name := DriverBase_name u\<rparr>)),
      s\<lparr>drivers := map (\<lambda>d. if DriverDB_id d = i then d\<lparr>DriverDB_name := DriverBase_name u\<rparr> else d)
                      (drivers s)\<rparr>)"
proof -
  from assms have "DriverDB_id driver = i" by (simp add: query_driver_Some)
  then show ?thesis
    by (simp add: update_driver_def assms Let_def to_Driver_def relationship_laps_def)
qed

lemma query_driver_updated:
  assumes "query_driver s i = Some driver"
  shows "query_driver
      (s\<lparr>drivers := map (\<lambda>d. if DriverDB_id d = i then d\<lparr>DriverDB_name := n\<rparr> else d) (drivers s)\<rparr>) i
    = Some (driver\<lparr>DriverDB_name := n\<rparr>)"
proof -
  have "find (\<lambda>d. DriverDB_id d = i)
          (map (\<lambda>d. if DriverDB_id d = i then d\<lparr>DriverDB_name := n\<rparr> else d) (drivers s))
        = map_option (\<lambda>d. if DriverDB_id d = i then d\<lparr>DriverDB_name := n\<rparr> else d)
            (find (\<lambda>d. DriverDB_id d = i) (drivers s))"
    by (rule find_map_keep) simp
  with assms show ?thesis
    by (simp add: query_driver_def query_driver_Some [OF assms])
qed

lemma update_lap_found:
  assumes "query_lap s i j = Some lap"
  shows "update_lap s i j u =
     (Inr (to_Lap (lap\<lparr>LapDB_lap_time := LapUpdate_lap_time u, LapDB_track := LapUpdate_track u\<rparr>)),
      s\<lparr>laps := map (\<lambda>l. if LapDB_id l = j
                          then l\<lparr>LapDB_lap_time := LapUpdate_lap_time u, LapDB_track := LapUpdate_track u\<rparr>
                          else l) (laps s)\<rparr>)"
proof -
  from assms have "LapDB_id lap = j" by (simp add: query_lap_Some)
  then show ?thesis
    by (simp add: update_lap_def assms)
qed

lemma query_lap_updated:
  assumes "query_lap s i j = Some lap"
  shows "query_lap
      (s\<lparr>laps := map (\<lambda>l. if LapDB_id l = j then l\<lparr>LapDB_lap_time := t, LapDB_track := k\<rparr> else l)
                    (laps s)\<rparr>) i j
    = Some (lap\<lparr>LapDB_lap_time := t, LapDB_track := k\<rparr>)"
proof -
  have "find (\<lambda>l. LapDB_id l = j \<and> LapDB_driver_id l = i)
          (map (\<lambda>l. if LapDB_id l = j then l\<lparr>LapDB_lap_time := t, LapDB_track := k\<rparr> else l) (laps s))
        = map_option (\<lambda>l. if LapDB_id l = j then l\<lparr>LapDB_lap_time := t, LapDB_track := k\<rparr> else l)
            (find (\<lambda>l. LapDB_id l = j \<and> LapDB_driver_id l = i) (laps s))"
    by (rule find_map_keep) simp
  with assms show ?thesis
    by (simp add: query_lap_def query_lap_Some [OF assms])
qed

lemma find_append_new:
  assumes "\<forall>x \<in> set xs. \<not> P x" and "P y"
  shows "find P (xs @ [y]) = Some y"
  using assms by (induction xs) auto

lemma negative_lap_eq: "negative_lap =
  \<lparr>drivers = [\<lparr>DriverDB_id = ''00000000-0000-4000-8000-000000000004'', DriverDB_name = ''Max Verstappen''\<rparr>],
   laps = [\<lparr>LapDB_id = ''00000000-0000-4000-8000-000000000005'', LapDB_lap_time = - 78.1,
            LapDB_track = ''Spa'', LapDB_driver_id = ''00000000-0000-4000-8000-000000000004''\<rparr>]\<rparr>"
  by (simp add: negative_lap_def run_def create_driver_def create_lap_def query_driver_def
      empty_db_def Let_def uuids)

lemma reachable_negative_lap: "reachable negative_lap"
  unfolding negative_lap_def by (rule reachable_run [OF reachable_empty])

lemma all_positive_step:
  assumes "all_positive s" and "positive_request x"
  shows "all_positive (snd (step s x))"
proof (cases x)
  case (Lifespan r0 r1 r2)
  with assms show ?thesis
    by (simp add: all_positive_def lifespan_def Let_def)
next
  case (CreateDriver r d)
  with assms show ?thesis
    by (simp add: all_positive_def create_driver_def Let_def)
next
  case (UpdateDriver i u)
  with assms show ?thesis
    by (simp add: all_positive_def update_driver_laps)
next
  case (DeleteDriver i)
  with assms show ?thesis
    by (auto simp: all_positive_def delete_driver_def list_all_iff split: option.splits)
next
  case (CreateLap r i l)
  with assms show ?thesis
    by (auto simp: all_positive_def create_lap_def Let_def split: option.splits)
next
  case (UpdateLap i j u)
  with assms show ?thesis
    by (auto simp: all_positive_def update_lap_def list_all_iff split: option.splits)
next
  case (DeleteLap i j)
  with assms show ?thesis
    by (auto simp: all_positive_def delete_lap_def list_all_iff split: option.splits)
qed (use assms in \<open>simp_all add: get_drivers_same get_driver_same get_laps_same get_lap_same\<close>)

lemma all_positive_run:
  "all_positive s \<Longrightarrow> list_all positive_request ops \<Longrightarrow> all_positive (run s ops)"
  unfolding run_def by (induction ops arbitrary: s) (simp_all add: all_positive_step)

lemma create_lap_Inr:
  assumes "create_lap s r i lap = (Inr L, s')"
  shows "L = to_Lap \<lparr>LapDB_id = new_uuid r, LapDB_lap_time = LapCreate_lap_time lap,
                     LapDB_track = LapCreate_track lap, LapDB_driver_id = i\<rparr>
       \<and> s' = s\<lparr>laps := laps s @ [\<lparr>LapDB_id = new_uuid r, LapDB_lap_time = LapCreate_lap_time lap,
                     LapDB_track = LapCreate_track lap, LapDB_driver_id = i\<rparr>]\<rparr>
       \<and> new_uuid r \<notin> set (map LapDB_id (laps s))
       \<and> i \<in> set (map DriverDB_id (drivers s))"
proof (cases "query_driver s i")
  case None
  with assms show ?thesis by (simp add: create_lap_def)
next
  case (Some driver)
  show ?thesis
  proof (cases "new_uuid r \<in> set (map LapDB_id (laps s))")
    case True
    with assms Some show ?thesis by (simp add: create_lap_def Let_def)
  next
    case False
    have "i \<in> set (map DriverDB_id (drivers s))"
      using Some query_driver_None [of s i] by simp
    with assms Some False show ?thesis by (simp add: create_lap_def Let_def)
  qed
qed

lemma create_driver_Inr:
  assumes "create_driver s r dc = (Inr D, s')"
  shows "s' = s\<lparr>drivers := drivers s @ [\<lparr>DriverDB_id = new_uuid r, DriverDB_name = DriverBase_name dc\<rparr>]\<rparr>
       \<and> D = to_Driver s' \<lparr>DriverDB_id = new_uuid r, DriverDB_name = DriverBase_name dc\<rparr>
       \<and> new_uuid r \<notin> set (map DriverDB_id (drivers s))"
proof (cases "new_uuid r \<in> set (map DriverDB_id (drivers s))")
  case True
  with assms show ?thesis by (simp add: create_driver_def Let_def)
next
  case False
  with assms show ?thesis by (auto simp: create_driver_def Let_def)
qed

lemma get_laps_eq:
  "get_laps s i =
     (if i \<in> set (map DriverDB_id (drivers s))
      then Inr (map to_Lap (filter (\<lambda>l. LapDB_driver_id l = i) (laps s)))
      else Inl DriverNotFound, s)"
proof (cases "query_driver s i")
  case None
  then show ?thesis
    using query_driver_None [of s i] by (simp add: get_laps_def)
next
  case (Some d)
  then have "DriverDB_id d = i" and "i \<in> set (map DriverDB_id (drivers s))"
    using query_driver_None [of s i] by (simp_all add: query_driver_Some)
  with Some show ?thesis
    by (simp add: get_laps_def relationship_laps_def)
qed

lemma order_same:
  assumes "laps s' = laps s"
  shows "\<exists>keep new. lap_ids_of s' i = filter keep (lap_ids_of s i) @ new
           \<and> set new \<inter> set (map LapDB_id (laps s)) = {}"
proof -
  have "lap_ids_of s' i = filter (\<lambda>_. True) (lap_ids_of s i) @ []"
    by (simp add: lap_ids_of_def assms)
  then show ?thesis by (intro exI [of _ "\<lambda>_. True"] exI [of _ "[]"]) simp
qed

lemma order_append:
  assumes "laps s' = laps s @ new"
    and "set (map LapDB_id new) \<inter> set (map LapDB_id (laps s)) = {}"
  shows "\<exists>keep nw. lap_ids_of s' i = filter keep (lap_ids_of s i) @ nw
           \<and> set nw \<inter> set (map LapDB_id (laps s)) = {}"
proof -
  let ?nw = "map LapDB_id (filter (\<lambda>l. LapDB_driver_id l = i) new)"
  have "lap_ids_of s' i = filter (\<lambda>_. True) (lap_ids_of s i) @ ?nw"
    by (simp add: lap_ids_of_def assms(1))
  moreover have "set ?nw \<inter> set (map LapDB_id (laps s)) = {}"
    using assms(2) by auto
  ultimately show ?thesis by blast
qed

lemma order_filter:
  assumes "laps s' = filter (\<lambda>l. K (LapDB_id l)) (laps s)"
  shows "\<exists>keep new. lap_ids_of s' i = filter keep (lap_ids_of s i) @ new
           \<and> set new \<inter> set (map LapDB_id (laps s)) = {}"
proof -
  have "map LapDB_id (filter P (filter (\<lambda>l. K (LapDB_id l)) xs))
        = filter K (map LapDB_id (filter P xs))" for P xs
    by (induction xs) auto
  then have "lap_ids_of s' i = filter K (lap_ids_of s i) @ []"
    by (simp add: lap_ids_of_def assms)
  then show ?thesis by (intro exI [of _ K] exI [of _ "[]"]) simp
qed

lemma order_update:
  assumes "laps s' = map (\<lambda>l. if P l then l\<lparr>LapDB_lap_time := t, LapDB_track := k\<rparr> else l) (laps s)"
  shows "\<exists>keep new. lap_ids_of s' i = filter keep (lap_ids_of s i) @ new
           \<and> set new \<inter> set (map LapDB_id (laps s)) = {}"
proof -
  have "map LapDB_id (filter (\<lambda>l. LapDB_driver_id l = i)
          (map (\<lambda>l. if P l then l\<lparr>LapDB_lap_time := t, LapDB_track := k\<rparr> else l) xs))
        = map LapDB_id (filter (\<lambda>l. LapDB_driver_id l = i) xs)" for xs
    by (induction xs) auto
  then have "lap_ids_of s' i = filter (\<lambda>_. True) (lap_ids_of s i) @ []"
    by (simp add: lap_ids_of_def assms)
  then show ?thesis by (intro exI [of _ "\<lambda>_. True"] exI [of _ "[]"]) simp
qed

lemma step_keeps_order:
  "\<exists>keep new. lap_ids_of (snd (step s x)) i = filter keep (lap_ids_of s i) @ new
     \<and> set new \<inter> set (map LapDB_id (laps s)) = {}"
proof (cases x)
  case (Lifespan r0 r1 r2)
  show ?thesis
  proof (cases "laps (snd (lifespan s r0 r1 r2)) = laps s")
    case True
    with Lifespan have "laps (snd (step s x)) = laps s" by simp
    then show ?thesis by (rule order_same)
  next
    case False
    then have ok: "new_uuid r1 \<notin> set (map LapDB_id (laps s))"
      "new_uuid r2 \<notin> set (map LapDB_id (laps s))"
      by (auto simp: lifespan_def Let_def split: if_splits)
    from False have "laps (snd (lifespan s r0 r1 r2)) = laps s @
        [\<lparr>LapDB_id = new_uuid r1, LapDB_lap_time = 85.4, LapDB_track = ''Silverstone'',
          LapDB_driver_id = new_uuid r0\<rparr>,
         \<lparr>LapDB_id = new_uuid r2, LapDB_lap_time = 86.2, LapDB_track = ''Monza'',
          LapDB_driver_id = new_uuid r0\<rparr>]"
      by (auto simp: lifespan_def Let_def split: if_splits)
    with Lifespan have "laps (snd (step s x)) = laps s @
        [\<lparr>LapDB_id = new_uuid r1, LapDB_lap_time = 85.4, LapDB_track = ''Silverstone'',
          LapDB_driver_id = new_uuid r0\<rparr>,
         \<lparr>LapDB_id = new_uuid r2, LapDB_lap_time = 86.2, LapDB_track = ''Monza'',
          LapDB_driver_id = new_uuid r0\<rparr>]"
      by simp
    then show ?thesis
      by (rule order_append) (use ok in auto)
  qed
next
  case (CreateDriver r d)
  then have "laps (snd (step s x)) = laps s"
    by (simp add: create_driver_def Let_def)
  then show ?thesis by (rule order_same)
next
  case GetDrivers
  then have "laps (snd (step s x)) = laps s" by (simp add: get_drivers_same)
  then show ?thesis by (rule order_same)
next
  case (GetDriver j)
  then have "laps (snd (step s x)) = laps s" by (simp add: get_driver_same)
  then show ?thesis by (rule order_same)
next
  case (UpdateDriver j u)
  then have "laps (snd (step s x)) = laps s" by (simp add: update_driver_laps)
  then show ?thesis by (rule order_same)
next
  case (DeleteDriver j)
  show ?thesis
  proof (cases "query_driver s j")
    case None
    with DeleteDriver have "laps (snd (step s x)) = laps s" by (simp add: delete_driver_def)
    then show ?thesis by (rule order_same)
  next
    case (Some driver)
    with DeleteDriver have "laps (snd (step s x))
        = filter (\<lambda>l. (\<lambda>a. a \<notin> set (map LapDB_id (relationship_laps s driver))) (LapDB_id l)) (laps s)"
      by (simp add: delete_driver_def)
    then show ?thesis by (rule order_filter)
  qed
next
  case (CreateLap r j l)
  show ?thesis
  proof (cases "fst (create_lap s r j l)")
    case (Inl e)
    then have "snd (create_lap s r j l) = s"
      by (cases "create_lap s r j l") (auto dest: create_lap_error)
    with CreateLap have "laps (snd (step s x)) = laps s" by simp
    then show ?thesis by (rule order_same)
  next
    case (Inr L)
    then have "create_lap s r j l = (Inr L, snd (create_lap s r j l))"
      by (cases "create_lap s r j l") simp
    note c = create_lap_Inr [OF this]
    from c have "snd (create_lap s r j l) = s\<lparr>laps := laps s @
        [\<lparr>LapDB_id = new_uuid r, LapDB_lap_time = LapCreate_lap_time l,
          LapDB_track = LapCreate_track l, LapDB_driver_id = j\<rparr>]\<rparr>"
      by (rule conjunct1 [OF conjunct2])
    with CreateLap have "laps (snd (step s x)) = laps s @
        [\<lparr>LapDB_id = new_uuid r, LapDB_lap_time = LapCreate_lap_time l,
          LapDB_track = LapCreate_track l, LapDB_driver_id = j\<rparr>]"
      by simp
    then show ?thesis
      by (rule order_append) (use c in auto)
  qed
next
  case (GetLaps j)
  then have "laps (snd (step s x)) = laps s" by (simp add: get_laps_same)
  then show ?thesis by (rule order_same)
next
  case (GetLap j k)
  then have "laps (snd (step s x)) = laps s" by (simp add: get_lap_same)
  then show ?thesis by (rule order_same)
next
  case (UpdateLap j k u)
  show ?thesis
  proof (cases "query_lap s j k")
    case None
    with UpdateLap have "laps (snd (step s x)) = laps s" by (simp add: update_lap_def)
    then show ?thesis by (rule order_same)
  next
    case (Some lap)
    with UpdateLap have "laps (snd (step s x))
        = map (\<lambda>l. if LapDB_id l = LapDB_id lap
                    then l\<lparr>LapDB_lap_time := LapUpdate_lap_time u, LapDB_track := LapUpdate_track u\<rparr>
                    else l) (laps s)"
      by (simp add: update_lap_def)
    then show ?thesis by (rule order_update)
  qed
next
  case (DeleteLap j k)
  show ?thesis
  proof (cases "query_lap s j k")
    case None
    with DeleteLap have "laps (snd (step s x)) = laps s" by (simp add: delete_lap_def)
    then show ?thesis by (rule order_same)
  next
    case (Some lap)
    with DeleteLap have "laps (snd (step s x))
        = filter (\<lambda>l. (\<lambda>a. a \<noteq> LapDB_id lap) (LapDB_id l)) (laps s)"
      by (simp add: delete_lap_def)
    then show ?thesis by (rule order_filter)
  qed
qed

section \<open>The claims\<close>

text \<open>
  C1. In a reachable state, for a lap \<open>l\<close> that is stored and a driver id \<open>X\<close> other than
  the lap's owner, \<^verbatim>\<open>get_lap\<close> with \<open>X\<close> and the lap's id raises "Lap not found" and
  does not return the lap; \<^verbatim>\<open>update_lap\<close> and \<^verbatim>\<open>delete_lap\<close> raise the same error and
  leave the database as it was.
\<close>

theorem lap_of_other_driver_not_found:
  assumes "reachable s" and "l \<in> set (laps s)" and "LapDB_driver_id l \<noteq> X"
  shows "get_lap s X (LapDB_id l) = (Inl LapNotFound, s)
       \<and> update_lap s X (LapDB_id l) u = (Inl LapNotFound, s)
       \<and> delete_lap s X (LapDB_id l) = (Inl LapNotFound, s)"
proof -
  from assms(1) have "distinct (map LapDB_id (laps s))"
    by (simp add: reachable_pk_ok [unfolded pk_ok_def])
  with assms(2) have "\<forall>l' \<in> set (laps s). LapDB_id l' = LapDB_id l \<longrightarrow> l' = l"
    by (meson distinct_map inj_onD)
  with assms(3) have "query_lap s X (LapDB_id l) = None"
    by (auto simp: query_lap_None)
  then show ?thesis
    by (simp add: get_lap_def update_lap_def delete_lap_def)
qed

theorem lap_of_other_driver_not_found_witness:
  "reachable two_drivers
   \<and> \<lparr>LapDB_id = ''00000000-0000-4000-8000-000000000002'', LapDB_lap_time = 85.4,
       LapDB_track = ''Silverstone'', LapDB_driver_id = ''00000000-0000-4000-8000-000000000001''\<rparr>
       \<in> set (laps two_drivers)
   \<and> get_lap two_drivers ''00000000-0000-4000-8000-000000000004''
        ''00000000-0000-4000-8000-000000000002'' = (Inl LapNotFound, two_drivers)
   \<and> update_lap two_drivers ''00000000-0000-4000-8000-000000000004''
        ''00000000-0000-4000-8000-000000000002''
        \<lparr>LapUpdate_lap_time = 80, LapUpdate_track = ''Spa''\<rparr> = (Inl LapNotFound, two_drivers)
   \<and> delete_lap two_drivers ''00000000-0000-4000-8000-000000000004''
        ''00000000-0000-4000-8000-000000000002'' = (Inl LapNotFound, two_drivers)"
  using lap_of_other_driver_not_found [OF reachable_two_drivers,
      of "\<lparr>LapDB_id = ''00000000-0000-4000-8000-000000000002'', LapDB_lap_time = 85.4,
       LapDB_track = ''Silverstone'', LapDB_driver_id = ''00000000-0000-4000-8000-000000000001''\<rparr>"
      "''00000000-0000-4000-8000-000000000004''"
      "\<lparr>LapUpdate_lap_time = 80, LapUpdate_track = ''Spa''\<rparr>"]
    reachable_two_drivers
  by (simp add: two_drivers_eq)

text \<open>
  C2. In a reachable state with a driver \<open>D\<close>, \<^verbatim>\<open>delete_driver\<close> succeeds and its one
  commit removes the driver and every lap of the driver, and nothing else: the laps that
  remain are the laps of the other drivers, as many fewer as the driver had. Afterwards
  \<^verbatim>\<open>get_lap\<close> on the id of any of the removed laps, with any driver id, raises
  "Lap not found", and \<^verbatim>\<open>get_driver\<close> and \<^verbatim>\<open>get_laps\<close> on \<open>D\<close> raise "Driver not found".
  The state after the operation has no lap without its driver; no state between the two
  is a state of the model.
\<close>

theorem delete_driver_cascade:
  assumes "reachable s" and "query_driver s D = Some driver"
    and "s' = snd (delete_driver s D)"
  shows "fst (delete_driver s D) = Inr ''Driver deleted''
       \<and> drivers s' = filter (\<lambda>d. DriverDB_id d \<noteq> D) (drivers s)
       \<and> laps s' = filter (\<lambda>l. LapDB_driver_id l \<noteq> D) (laps s)
       \<and> length (laps s') + length (relationship_laps s driver) = length (laps s)
       \<and> (\<forall>l \<in> set (relationship_laps s driver). \<forall>X.
             get_lap s' X (LapDB_id l) = (Inl LapNotFound, s'))
       \<and> get_driver s' D = (Inl DriverNotFound, s')
       \<and> get_laps s' D = (Inl DriverNotFound, s')
       \<and> fk_ok s'"
proof -
  have pk: "pk_ok s" using assms(1) by (rule reachable_pk_ok)
  have i: "DriverDB_id driver = D"
    using assms(2) by (simp add: query_driver_Some)
  note dd = delete_driver_found [OF pk assms(2)]
  have d': "drivers s' = filter (\<lambda>d. DriverDB_id d \<noteq> D) (drivers s)"
    and l': "laps s' = filter (\<lambda>l. LapDB_driver_id l \<noteq> D) (laps s)"
    by (simp_all add: assms(3) dd)
  have len: "length (laps s') + length (relationship_laps s driver) = length (laps s)"
    using sum_length_filter_compl [of "\<lambda>l. LapDB_driver_id l = D" "laps s"]
    by (simp add: l' relationship_laps_def i)
  have gone: "get_lap s' X (LapDB_id l) = (Inl LapNotFound, s')"
    if "l \<in> set (relationship_laps s driver)" for l X
  proof -
    from that have l: "l \<in> set (laps s)" "LapDB_driver_id l = D"
      by (simp_all add: relationship_laps_def i)
    from pk have inj: "inj_on LapDB_id (set (laps s))"
      by (simp add: pk_ok_def distinct_map)
    have "\<forall>k \<in> set (laps s'). LapDB_id k \<noteq> LapDB_id l"
    proof
      fix k assume "k \<in> set (laps s')"
      then have k: "k \<in> set (laps s)" "LapDB_driver_id k \<noteq> D" by (simp_all add: l')
      show "LapDB_id k \<noteq> LapDB_id l"
      proof
        assume "LapDB_id k = LapDB_id l"
        with inj k(1) l(1) have "k = l" by (auto dest: inj_onD)
        with k(2) l(2) show False by simp
      qed
    qed
    then have "query_lap s' X (LapDB_id l) = None"
      by (simp add: query_lap_None)
    then show ?thesis by (simp add: get_lap_def)
  qed
  have q: "query_driver s' D = None"
    by (auto simp: query_driver_None d')
  have fk: "fk_ok s'"
    using fk_ok_delete_driver [OF reachable_fk_ok [OF assms(1)], of D] by (simp add: assms(3))
  show ?thesis
    using d' l' len gone fk by (simp add: dd get_driver_def get_laps_def q)
qed

theorem delete_driver_cascade_witness:
  "reachable two_drivers
   \<and> query_driver two_drivers ''00000000-0000-4000-8000-000000000001''
       = Some \<lparr>DriverDB_id = ''00000000-0000-4000-8000-000000000001'', DriverDB_name = ''Lewis Hamilton''\<rparr>
   \<and> fst (delete_driver two_drivers ''00000000-0000-4000-8000-000000000001'') = Inr ''Driver deleted''
   \<and> snd (delete_driver two_drivers ''00000000-0000-4000-8000-000000000001'') =
       \<lparr>drivers = [\<lparr>DriverDB_id = ''00000000-0000-4000-8000-000000000004'', DriverDB_name = ''Max Verstappen''\<rparr>],
        laps = [\<lparr>LapDB_id = ''00000000-0000-4000-8000-000000000005'', LapDB_lap_time = 78.1,
                 LapDB_track = ''Spa'', LapDB_driver_id = ''00000000-0000-4000-8000-000000000004''\<rparr>]\<rparr>
   \<and> get_lap (snd (delete_driver two_drivers ''00000000-0000-4000-8000-000000000001''))
        ''00000000-0000-4000-8000-000000000001'' ''00000000-0000-4000-8000-000000000002''
       = (Inl LapNotFound, snd (delete_driver two_drivers ''00000000-0000-4000-8000-000000000001''))
   \<and> get_driver (snd (delete_driver two_drivers ''00000000-0000-4000-8000-000000000001''))
        ''00000000-0000-4000-8000-000000000001''
       = (Inl DriverNotFound, snd (delete_driver two_drivers ''00000000-0000-4000-8000-000000000001''))
   \<and> get_laps (snd (delete_driver two_drivers ''00000000-0000-4000-8000-000000000001''))
        ''00000000-0000-4000-8000-000000000001''
       = (Inl DriverNotFound, snd (delete_driver two_drivers ''00000000-0000-4000-8000-000000000001''))"
  using delete_driver_cascade [OF reachable_two_drivers,
      of "''00000000-0000-4000-8000-000000000001''"
         "\<lparr>DriverDB_id = ''00000000-0000-4000-8000-000000000001'', DriverDB_name = ''Lewis Hamilton''\<rparr>"
         "snd (delete_driver two_drivers ''00000000-0000-4000-8000-000000000001'')"]
    reachable_two_drivers
  by (simp add: two_drivers_eq query_driver_def relationship_laps_def)

text \<open>
  C3. In every state reachable from the empty store by the operations (the start of the
  process among them), the \<^verbatim>\<open>driver_id\<close> of every stored lap is the id of a stored
  driver, whom the driver query finds. \<^verbatim>\<open>create_lap\<close> under an id that no driver has
  raises "Driver not found" and stores nothing, and after \<^verbatim>\<open>delete_driver\<close> every lap
  that is left still has its driver.
\<close>

theorem no_orphaned_laps:
  assumes "reachable s" and "l \<in> set (laps s)"
  shows "(\<exists>d \<in> set (drivers s). DriverDB_id d = LapDB_driver_id l)
       \<and> query_driver s (LapDB_driver_id l) \<noteq> None
       \<and> (i \<notin> set (map DriverDB_id (drivers s)) \<longrightarrow>
            create_lap s r i lap = (Inl DriverNotFound, s))
       \<and> (\<forall>k \<in> set (laps (snd (delete_driver s j))).
            \<exists>d \<in> set (drivers (snd (delete_driver s j))). DriverDB_id d = LapDB_driver_id k)"
proof (intro conjI impI)
  have fk: "fk_ok s" using assms(1) by (rule reachable_fk_ok)
  with assms(2) have in_ids: "LapDB_driver_id l \<in> set (map DriverDB_id (drivers s))"
    by (simp add: fk_ok_def)
  then show "\<exists>d \<in> set (drivers s). DriverDB_id d = LapDB_driver_id l"
    by auto
  from in_ids show "query_driver s (LapDB_driver_id l) \<noteq> None"
    by (simp add: query_driver_None)
  have "fk_ok (snd (delete_driver s j))"
    using fk by (rule fk_ok_delete_driver)
  then show "\<forall>k \<in> set (laps (snd (delete_driver s j))).
      \<exists>d \<in> set (drivers (snd (delete_driver s j))). DriverDB_id d = LapDB_driver_id k"
    unfolding fk_ok_def by (metis (no_types, lifting) imageE list.set_map)
next
  assume "i \<notin> set (map DriverDB_id (drivers s))"
  then have "query_driver s i = None"
    by (simp add: query_driver_None)
  then show "create_lap s r i lap = (Inl DriverNotFound, s)"
    by (simp add: create_lap_def)
qed

theorem no_orphaned_laps_witness:
  "reachable two_drivers
   \<and> \<lparr>LapDB_id = ''00000000-0000-4000-8000-000000000005'', LapDB_lap_time = 78.1,
       LapDB_track = ''Spa'', LapDB_driver_id = ''00000000-0000-4000-8000-000000000004''\<rparr>
       \<in> set (laps two_drivers)
   \<and> (\<exists>d \<in> set (drivers two_drivers). DriverDB_id d = ''00000000-0000-4000-8000-000000000004'')
   \<and> ''00000000-0000-4000-8000-000000000009'' \<notin> set (map DriverDB_id (drivers two_drivers))
   \<and> create_lap two_drivers 7 ''00000000-0000-4000-8000-000000000009''
        \<lparr>LapCreate_lap_time = 80, LapCreate_track = ''Spa''\<rparr> = (Inl DriverNotFound, two_drivers)
   \<and> laps (snd (delete_driver two_drivers ''00000000-0000-4000-8000-000000000001''))
       = [\<lparr>LapDB_id = ''00000000-0000-4000-8000-000000000005'', LapDB_lap_time = 78.1,
           LapDB_track = ''Spa'', LapDB_driver_id = ''00000000-0000-4000-8000-000000000004''\<rparr>]"
  using no_orphaned_laps [OF reachable_two_drivers,
      of "\<lparr>LapDB_id = ''00000000-0000-4000-8000-000000000005'', LapDB_lap_time = 78.1,
       LapDB_track = ''Spa'', LapDB_driver_id = ''00000000-0000-4000-8000-000000000004''\<rparr>"
      "''00000000-0000-4000-8000-000000000009''" 7
      "\<lparr>LapCreate_lap_time = 80, LapCreate_track = ''Spa''\<rparr>"
      "''00000000-0000-4000-8000-000000000001''"]
    reachable_two_drivers
  by (simp add: two_drivers_eq delete_driver_def query_driver_def relationship_laps_def)

text \<open>
  C4 as stated fails: a request with a \<^verbatim>\<open>lap_time\<close> of -78.1 is accepted, and the state
  it leads to, reachable from the empty store, holds a lap whose \<^verbatim>\<open>lap_time\<close> is not
  greater than zero; \<^verbatim>\<open>update_lap\<close> likewise accepts a \<^verbatim>\<open>lap_time\<close> of 0.
\<close>

theorem negative_lap_time_stored:
  "reachable negative_lap
   \<and> create_lap (run empty_db [CreateDriver 4 \<lparr>DriverBase_name = ''Max Verstappen''\<rparr>]) 5
        ''00000000-0000-4000-8000-000000000004''
        \<lparr>LapCreate_lap_time = - 78.1, LapCreate_track = ''Spa''\<rparr>
     = (Inr \<lparr>Lap_id = Some ''00000000-0000-4000-8000-000000000005'', Lap_lap_time = - 78.1,
             Lap_track = ''Spa''\<rparr>, negative_lap)
   \<and> \<lparr>LapDB_id = ''00000000-0000-4000-8000-000000000005'', LapDB_lap_time = - 78.1,
       LapDB_track = ''Spa'', LapDB_driver_id = ''00000000-0000-4000-8000-000000000004''\<rparr>
       \<in> set (laps negative_lap)
   \<and> \<not> 0 < LapDB_lap_time
        \<lparr>LapDB_id = ''00000000-0000-4000-8000-000000000005'', LapDB_lap_time = - 78.1,
         LapDB_track = ''Spa'', LapDB_driver_id = ''00000000-0000-4000-8000-000000000004''\<rparr>
   \<and> fst (update_lap seeded ''00000000-0000-4000-8000-000000000001''
        ''00000000-0000-4000-8000-000000000002''
        \<lparr>LapUpdate_lap_time = 0, LapUpdate_track = ''Silverstone''\<rparr>)
     = Inr \<lparr>Lap_id = Some ''00000000-0000-4000-8000-000000000002'', Lap_lap_time = 0,
            Lap_track = ''Silverstone''\<rparr>"
  using reachable_negative_lap
  by (simp add: negative_lap_eq seeded_eq run_def create_driver_def create_lap_def update_lap_def
      query_driver_def query_lap_def to_Lap_def empty_db_def Let_def uuids)

text \<open>
  C4, as amended. \<^verbatim>\<open>create_lap\<close> and \<^verbatim>\<open>update_lap\<close> apply no check to \<^verbatim>\<open>lap_time\<close>: the
  lap they return and the row they store carry the value of the request as it came. So
  when every \<^verbatim>\<open>lap_time\<close> that the requests of a run supply is positive, every lap stored
  after the run has a \<^verbatim>\<open>lap_time\<close> greater than zero (the two laps stored at the first
  start have 85.4 and 86.2).
\<close>

theorem lap_times_as_supplied:
  "(list_all positive_request ops \<longrightarrow>
      (\<forall>l \<in> set (laps (run empty_db ops)). 0 < LapDB_lap_time l))
   \<and> (create_lap s r i lap = (Inr L, s') \<longrightarrow>
        Lap_lap_time L = LapCreate_lap_time lap
        \<and> (\<exists>row. laps s' = laps s @ [row] \<and> LapDB_lap_time row = LapCreate_lap_time lap))
   \<and> (update_lap s k j lu = (Inr L', s'') \<longrightarrow>
        Lap_lap_time L' = LapUpdate_lap_time lu
        \<and> (\<forall>row \<in> set (laps s''). LapDB_id row = j \<longrightarrow> LapDB_lap_time row = LapUpdate_lap_time lu))"
proof (intro conjI impI)
  assume ops: "list_all positive_request ops"
  have "all_positive empty_db"
    by (simp add: all_positive_def empty_db_def)
  then have "all_positive (run empty_db ops)"
    using ops by (rule all_positive_run)
  then show "\<forall>l \<in> set (laps (run empty_db ops)). 0 < LapDB_lap_time l"
    by (simp add: all_positive_def list_all_iff)
next
  assume a: "create_lap s r i lap = (Inr L, s')"
  note c = create_lap_Inr [OF a]
  from c show "Lap_lap_time L = LapCreate_lap_time lap"
    by (simp add: to_Lap_def)
  from c have "laps s' = laps s @ [\<lparr>LapDB_id = new_uuid r, LapDB_lap_time = LapCreate_lap_time lap,
                     LapDB_track = LapCreate_track lap, LapDB_driver_id = i\<rparr>]"
    by simp
  then show "\<exists>row. laps s' = laps s @ [row] \<and> LapDB_lap_time row = LapCreate_lap_time lap"
    by simp
next
  assume a: "update_lap s k j lu = (Inr L', s'')"
  then obtain lap where q: "query_lap s k j = Some lap"
    by (cases "query_lap s k j") (simp_all add: update_lap_def)
  note first = a [unfolded update_lap_found [OF q]]
  from first have L': "L' = to_Lap (lap\<lparr>LapDB_lap_time := LapUpdate_lap_time lu, LapDB_track := LapUpdate_track lu\<rparr>)"
    and s'': "laps s'' = map (\<lambda>l. if LapDB_id l = j
                          then l\<lparr>LapDB_lap_time := LapUpdate_lap_time lu, LapDB_track := LapUpdate_track lu\<rparr>
                          else l) (laps s)"
    by auto
  from L' show "Lap_lap_time L' = LapUpdate_lap_time lu"
    by (simp add: to_Lap_def)
  show "\<forall>row \<in> set (laps s''). LapDB_id row = j \<longrightarrow> LapDB_lap_time row = LapUpdate_lap_time lu"
  proof (intro ballI impI)
    fix row assume row: "row \<in> set (laps s'')" and j: "LapDB_id row = j"
    from row have "row \<in> (\<lambda>l. if LapDB_id l = j
                          then l\<lparr>LapDB_lap_time := LapUpdate_lap_time lu, LapDB_track := LapUpdate_track lu\<rparr>
                          else l) ` set (laps s)"
      by (simp only: s'' set_map)
    then obtain x where x: "row = (if LapDB_id x = j
                          then x\<lparr>LapDB_lap_time := LapUpdate_lap_time lu, LapDB_track := LapUpdate_track lu\<rparr>
                          else x)"
      by (rule imageE)
    show "LapDB_lap_time row = LapUpdate_lap_time lu"
    proof (cases "LapDB_id x = j")
      case True
      with x show ?thesis by simp
    next
      case False
      with x have "row = x" by simp
      with j False show ?thesis by simp
    qed
  qed
qed

theorem lap_times_as_supplied_witness:
  "list_all positive_request
     [Lifespan 1 2 3, CreateDriver 4 \<lparr>DriverBase_name = ''Max Verstappen''\<rparr>,
      CreateLap 5 (new_uuid 4) \<lparr>LapCreate_lap_time = 78.1, LapCreate_track = ''Spa''\<rparr>]
   \<and> list_all (\<lambda>l. 0 < LapDB_lap_time l) (laps two_drivers)
   \<and> create_lap negative_lap 2 ''00000000-0000-4000-8000-000000000004''
        \<lparr>LapCreate_lap_time = 78.1, LapCreate_track = ''Spa''\<rparr>
     = (Inr \<lparr>Lap_id = Some ''00000000-0000-4000-8000-000000000002'', Lap_lap_time = 78.1,
             Lap_track = ''Spa''\<rparr>,
        snd (create_lap negative_lap 2 ''00000000-0000-4000-8000-000000000004''
               \<lparr>LapCreate_lap_time = 78.1, LapCreate_track = ''Spa''\<rparr>))
   \<and> update_lap negative_lap ''00000000-0000-4000-8000-000000000004''
        ''00000000-0000-4000-8000-000000000005''
        \<lparr>LapUpdate_lap_time = 78.1, LapUpdate_track = ''Spa''\<rparr>
     = (Inr \<lparr>Lap_id = Some ''00000000-0000-4000-8000-000000000005'', Lap_lap_time = 78.1,
             Lap_track = ''Spa''\<rparr>,
        \<lparr>drivers = [\<lparr>DriverDB_id = ''00000000-0000-4000-8000-000000000004'',
                      DriverDB_name = ''Max Verstappen''\<rparr>],
         laps = [\<lparr>LapDB_id = ''00000000-0000-4000-8000-000000000005'', LapDB_lap_time = 78.1,
                  LapDB_track = ''Spa'', LapDB_driver_id = ''00000000-0000-4000-8000-000000000004''\<rparr>]\<rparr>)"
  using lap_times_as_supplied [of
      "[Lifespan 1 2 3, CreateDriver 4 \<lparr>DriverBase_name = ''Max Verstappen''\<rparr>,
        CreateLap 5 (new_uuid 4) \<lparr>LapCreate_lap_time = 78.1, LapCreate_track = ''Spa''\<rparr>]"
      negative_lap 2 "''00000000-0000-4000-8000-000000000004''"
      "\<lparr>LapCreate_lap_time = 78.1, LapCreate_track = ''Spa''\<rparr>"
      "\<lparr>Lap_id = Some ''00000000-0000-4000-8000-000000000002'', Lap_lap_time = 78.1,
             Lap_track = ''Spa''\<rparr>"
      "snd (create_lap negative_lap 2 ''00000000-0000-4000-8000-000000000004''
               \<lparr>LapCreate_lap_time = 78.1, LapCreate_track = ''Spa''\<rparr>)"
      "''00000000-0000-4000-8000-000000000004''" "''00000000-0000-4000-8000-000000000005''"
      "\<lparr>LapUpdate_lap_time = 78.1, LapUpdate_track = ''Spa''\<rparr>"
      "\<lparr>Lap_id = Some ''00000000-0000-4000-8000-000000000005'', Lap_lap_time = 78.1,
             Lap_track = ''Spa''\<rparr>"
      "snd (update_lap negative_lap ''00000000-0000-4000-8000-000000000004''
        ''00000000-0000-4000-8000-000000000005''
        \<lparr>LapUpdate_lap_time = 78.1, LapUpdate_track = ''Spa''\<rparr>)"]
  by (simp add: two_drivers_def [symmetric] two_drivers_eq negative_lap_eq create_lap_def
      update_lap_def query_driver_def query_lap_def to_Lap_def Let_def uuids list_all_iff)

text \<open>
  C5. An operation that raises leaves the database as it found it. In particular
  \<^verbatim>\<open>delete_driver\<close> with an id that no driver has raises "Driver not found" and changes
  no row, and so do the other endpoints that look the driver up first; the lap endpoints
  whose lookup finds nothing raise "Lap not found" and change no row.
\<close>

theorem error_leaves_state:
  "(fst (step s x) = Inl e \<longrightarrow> snd (step s x) = s)
   \<and> (driver_id \<notin> set (map DriverDB_id (drivers s)) \<longrightarrow>
        delete_driver s driver_id = (Inl DriverNotFound, s)
        \<and> update_driver s driver_id u = (Inl DriverNotFound, s)
        \<and> get_driver s driver_id = (Inl DriverNotFound, s)
        \<and> create_lap s r driver_id lap = (Inl DriverNotFound, s)
        \<and> get_laps s driver_id = (Inl DriverNotFound, s))
   \<and> (query_lap s driver_id lap_id = None \<longrightarrow>
        get_lap s driver_id lap_id = (Inl LapNotFound, s)
        \<and> update_lap s driver_id lap_id lu = (Inl LapNotFound, s)
        \<and> delete_lap s driver_id lap_id = (Inl LapNotFound, s))"
proof (intro conjI impI)
  assume "fst (step s x) = Inl e"
  then show "snd (step s x) = s" by (rule step_error)
next
  assume "driver_id \<notin> set (map DriverDB_id (drivers s))"
  then have q: "query_driver s driver_id = None" by (simp add: query_driver_None)
  show "delete_driver s driver_id = (Inl DriverNotFound, s)" by (simp add: delete_driver_def q)
  show "update_driver s driver_id u = (Inl DriverNotFound, s)" by (simp add: update_driver_def q)
  show "get_driver s driver_id = (Inl DriverNotFound, s)" by (simp add: get_driver_def q)
  show "create_lap s r driver_id lap = (Inl DriverNotFound, s)" by (simp add: create_lap_def q)
  show "get_laps s driver_id = (Inl DriverNotFound, s)" by (simp add: get_laps_def q)
next
  assume q: "query_lap s driver_id lap_id = None"
  show "get_lap s driver_id lap_id = (Inl LapNotFound, s)" by (simp add: get_lap_def q)
  show "update_lap s driver_id lap_id lu = (Inl LapNotFound, s)" by (simp add: update_lap_def q)
  show "delete_lap s driver_id lap_id = (Inl LapNotFound, s)" by (simp add: delete_lap_def q)
qed

theorem error_leaves_state_witness:
  "fst (step seeded (DeleteDriver ''00000000-0000-4000-8000-000000000009'')) = Inl DriverNotFound
   \<and> snd (step seeded (DeleteDriver ''00000000-0000-4000-8000-000000000009'')) = seeded
   \<and> ''00000000-0000-4000-8000-000000000009'' \<notin> set (map DriverDB_id (drivers seeded))
   \<and> delete_driver seeded ''00000000-0000-4000-8000-000000000009'' = (Inl DriverNotFound, seeded)
   \<and> query_lap seeded ''00000000-0000-4000-8000-000000000009''
        ''00000000-0000-4000-8000-000000000002'' = None
   \<and> delete_lap seeded ''00000000-0000-4000-8000-000000000009''
        ''00000000-0000-4000-8000-000000000002'' = (Inl LapNotFound, seeded)"
  using error_leaves_state [of seeded "DeleteDriver ''00000000-0000-4000-8000-000000000009''"
      DriverNotFound "''00000000-0000-4000-8000-000000000009''"
      "\<lparr>DriverBase_name = ''Nobody''\<rparr>" 7
      "\<lparr>LapCreate_lap_time = 80, LapCreate_track = ''Spa''\<rparr>"
      "''00000000-0000-4000-8000-000000000002''"
      "\<lparr>LapUpdate_lap_time = 80, LapUpdate_track = ''Spa''\<rparr>"]
  by (simp add: seeded_eq query_lap_def)

text \<open>
  C6. \<^verbatim>\<open>update_driver\<close> and \<^verbatim>\<open>update_lap\<close> are idempotent: when an update succeeds, the
  same update applied again to the state it left returns the same driver (the same lap)
  and leaves that state as it is; the tables have as many rows as before the first update.
\<close>

theorem updates_idempotent:
  "(update_driver s i u = (Inr d, s') \<longrightarrow>
      update_driver s' i u = (Inr d, s')
      \<and> length (drivers s') = length (drivers s) \<and> laps s' = laps s)
   \<and> (update_lap s k j lu = (Inr l, s'') \<longrightarrow>
      update_lap s'' k j lu = (Inr l, s'')
      \<and> length (laps s'') = length (laps s) \<and> drivers s'' = drivers s)"
proof (intro conjI impI)
  assume a: "update_driver s i u = (Inr d, s')"
  then obtain driver where q: "query_driver s i = Some driver"
    by (auto simp: update_driver_def split: option.splits)
  note first = a [unfolded update_driver_found [OF q]]
  let ?f = "\<lambda>d. if DriverDB_id d = i then d\<lparr>DriverDB_name := DriverBase_name u\<rparr> else d"
  from first have s': "s' = s\<lparr>drivers := map ?f (drivers s)\<rparr>"
    and d: "d = to_Driver s (driver\<lparr>DriverDB_name := DriverBase_name u\<rparr>)"
    by simp_all
  have q': "query_driver s' i = Some (driver\<lparr>DriverDB_name := DriverBase_name u\<rparr>)"
    unfolding s' by (rule query_driver_updated [OF q])
  have "map ?f (map ?f (drivers s)) = map ?f (drivers s)"
    by (induction "drivers s") auto
  then show "update_driver s' i u = (Inr d, s')"
    unfolding update_driver_found [OF q']
    by (simp add: s' d to_Driver_def relationship_laps_def)
  show "length (drivers s') = length (drivers s)" by (simp add: s')
  show "laps s' = laps s" by (simp add: s')
next
  assume a: "update_lap s k j lu = (Inr l, s'')"
  then obtain lap where q: "query_lap s k j = Some lap"
    by (auto simp: update_lap_def split: option.splits)
  note first = a [unfolded update_lap_found [OF q]]
  let ?g = "\<lambda>l. if LapDB_id l = j
                 then l\<lparr>LapDB_lap_time := LapUpdate_lap_time lu, LapDB_track := LapUpdate_track lu\<rparr>
                 else l"
  from first have s'': "s'' = s\<lparr>laps := map ?g (laps s)\<rparr>"
    and l: "l = to_Lap (lap\<lparr>LapDB_lap_time := LapUpdate_lap_time lu, LapDB_track := LapUpdate_track lu\<rparr>)"
    by simp_all
  have q': "query_lap s'' k j
      = Some (lap\<lparr>LapDB_lap_time := LapUpdate_lap_time lu, LapDB_track := LapUpdate_track lu\<rparr>)"
    unfolding s'' by (rule query_lap_updated [OF q])
  have "map ?g (map ?g (laps s)) = map ?g (laps s)"
    by (induction "laps s") auto
  then show "update_lap s'' k j lu = (Inr l, s'')"
    unfolding update_lap_found [OF q']
    by (simp add: s'' l)
  show "length (laps s'') = length (laps s)" by (simp add: s'')
  show "drivers s'' = drivers s" by (simp add: s'')
qed

theorem updates_idempotent_witness:
  "update_driver two_drivers ''00000000-0000-4000-8000-000000000004''
      \<lparr>DriverBase_name = ''Max Emilian Verstappen''\<rparr>
    = (Inr \<lparr>Driver_id = Some ''00000000-0000-4000-8000-000000000004'',
            Driver_name = ''Max Emilian Verstappen'',
            Driver_laps = [\<lparr>Lap_id = Some ''00000000-0000-4000-8000-000000000005'',
                            Lap_lap_time = 78.1, Lap_track = ''Spa''\<rparr>]\<rparr>,
       snd (update_driver two_drivers ''00000000-0000-4000-8000-000000000004''
              \<lparr>DriverBase_name = ''Max Emilian Verstappen''\<rparr>))
   \<and> update_driver
        (snd (update_driver two_drivers ''00000000-0000-4000-8000-000000000004''
              \<lparr>DriverBase_name = ''Max Emilian Verstappen''\<rparr>))
        ''00000000-0000-4000-8000-000000000004'' \<lparr>DriverBase_name = ''Max Emilian Verstappen''\<rparr>
    = (Inr \<lparr>Driver_id = Some ''00000000-0000-4000-8000-000000000004'',
            Driver_name = ''Max Emilian Verstappen'',
            Driver_laps = [\<lparr>Lap_id = Some ''00000000-0000-4000-8000-000000000005'',
                            Lap_lap_time = 78.1, Lap_track = ''Spa''\<rparr>]\<rparr>,
       snd (update_driver two_drivers ''00000000-0000-4000-8000-000000000004''
              \<lparr>DriverBase_name = ''Max Emilian Verstappen''\<rparr>))
   \<and> update_lap two_drivers ''00000000-0000-4000-8000-000000000001''
        ''00000000-0000-4000-8000-000000000003''
        \<lparr>LapUpdate_lap_time = 81.9, LapUpdate_track = ''Monza''\<rparr>
    = (Inr \<lparr>Lap_id = Some ''00000000-0000-4000-8000-000000000003'',
            Lap_lap_time = 81.9, Lap_track = ''Monza''\<rparr>,
       snd (update_lap two_drivers ''00000000-0000-4000-8000-000000000001''
              ''00000000-0000-4000-8000-000000000003''
              \<lparr>LapUpdate_lap_time = 81.9, LapUpdate_track = ''Monza''\<rparr>))
   \<and> update_lap
        (snd (update_lap two_drivers ''00000000-0000-4000-8000-000000000001''
              ''00000000-0000-4000-8000-000000000003''
              \<lparr>LapUpdate_lap_time = 81.9, LapUpdate_track = ''Monza''\<rparr>))
        ''00000000-0000-4000-8000-000000000001'' ''00000000-0000-4000-8000-000000000003''
        \<lparr>LapUpdate_lap_time = 81.9, LapUpdate_track = ''Monza''\<rparr>
    = (Inr \<lparr>Lap_id = Some ''00000000-0000-4000-8000-000000000003'',
            Lap_lap_time = 81.9, Lap_track = ''Monza''\<rparr>,
       snd (update_lap two_drivers ''00000000-0000-4000-8000-000000000001''
              ''00000000-0000-4000-8000-000000000003''
              \<lparr>LapUpdate_lap_time = 81.9, LapUpdate_track = ''Monza''\<rparr>))"
  using updates_idempotent [of two_drivers "''00000000-0000-4000-8000-000000000004''"
      "\<lparr>DriverBase_name = ''Max Emilian Verstappen''\<rparr>"
      "\<lparr>Driver_id = Some ''00000000-0000-4000-8000-000000000004'',
            Driver_name = ''Max Emilian Verstappen'',
            Driver_laps = [\<lparr>Lap_id = Some ''00000000-0000-4000-8000-000000000005'',
                            Lap_lap_time = 78.1, Lap_track = ''Spa''\<rparr>]\<rparr>"
      "snd (update_driver two_drivers ''00000000-0000-4000-8000-000000000004''
              \<lparr>DriverBase_name = ''Max Emilian Verstappen''\<rparr>)"
      "''00000000-0000-4000-8000-000000000001''"
      "''00000000-0000-4000-8000-000000000003''"
      "\<lparr>LapUpdate_lap_time = 81.9, LapUpdate_track = ''Monza''\<rparr>"
      "\<lparr>Lap_id = Some ''00000000-0000-4000-8000-000000000003'',
            Lap_lap_time = 81.9, Lap_track = ''Monza''\<rparr>"
      "snd (update_lap two_drivers ''00000000-0000-4000-8000-000000000001''
              ''00000000-0000-4000-8000-000000000003''
              \<lparr>LapUpdate_lap_time = 81.9, LapUpdate_track = ''Monza''\<rparr>)"]
  by (simp add: two_drivers_eq update_driver_def update_lap_def query_driver_def query_lap_def
      to_Driver_def to_Lap_def relationship_laps_def Let_def)

text \<open>
  C7. Round trip: from any state, when \<^verbatim>\<open>create_driver\<close> returns a driver \<open>D\<close> and
  \<^verbatim>\<open>create_lap\<close> under \<open>D\<close>'s id returns a lap \<open>L\<close>, then \<^verbatim>\<open>get_driver\<close> on that id
  succeeds with the same id and the name given, and its list of laps holds \<open>L\<close>, whose
  \<^verbatim>\<open>lap_time\<close> and \<^verbatim>\<open>track\<close> are those given at creation.
\<close>

theorem create_round_trip:
  assumes "create_driver s r dc = (Inr D, s1)" and "Driver_id D = Some i"
    and "create_lap s1 r' i lc = (Inr L, s2)"
  shows "\<exists>D'. get_driver s2 i = (Inr D', s2)
           \<and> L \<in> set (Driver_laps D')
           \<and> Lap_lap_time L = LapCreate_lap_time lc \<and> Lap_track L = LapCreate_track lc
           \<and> Driver_id D' = Driver_id D \<and> Driver_name D' = DriverBase_name dc"
proof -
  let ?row = "\<lparr>DriverDB_id = new_uuid r, DriverDB_name = DriverBase_name dc\<rparr>"
  from assms(1) have fresh: "new_uuid r \<notin> set (map DriverDB_id (drivers s))"
    and s1: "s1 = s\<lparr>drivers := drivers s @ [?row]\<rparr>"
    and D: "D = to_Driver s1 ?row"
    by (auto simp: create_driver_def Let_def split: if_splits)
  from D assms(2) have i: "i = new_uuid r"
    by (simp add: to_Driver_def)
  from fresh have nf: "\<forall>d \<in> set (drivers s). \<not> DriverDB_id d = new_uuid r"
    by force
  have "find (\<lambda>d. DriverDB_id d = new_uuid r) (drivers s @ [?row]) = Some ?row"
    by (rule find_append_new [OF nf]) simp
  then have q1: "query_driver s1 i = Some ?row"
    by (simp add: query_driver_def s1 i)
  let ?lap = "\<lparr>LapDB_id = new_uuid r', LapDB_lap_time = LapCreate_lap_time lc,
               LapDB_track = LapCreate_track lc, LapDB_driver_id = i\<rparr>"
  from assms(3) have s2: "s2 = s1\<lparr>laps := laps s1 @ [?lap]\<rparr>" and L: "L = to_Lap ?lap"
    by (auto simp: create_lap_def q1 Let_def split: if_splits)
  have q2: "query_driver s2 i = Some ?row"
    using q1 by (simp add: query_driver_def s2)
  have "get_driver s2 i = (Inr (to_Driver s2 ?row), s2)"
    by (simp add: get_driver_def q2)
  moreover have "L \<in> set (Driver_laps (to_Driver s2 ?row))"
    by (simp add: to_Driver_def relationship_laps_def s2 L i)
  moreover have "Lap_lap_time L = LapCreate_lap_time lc \<and> Lap_track L = LapCreate_track lc"
    by (simp add: L to_Lap_def)
  moreover have "Driver_id (to_Driver s2 ?row) = Driver_id D
      \<and> Driver_name (to_Driver s2 ?row) = DriverBase_name dc"
    by (simp add: D to_Driver_def)
  ultimately show ?thesis by blast
qed

theorem create_round_trip_witness:
  "create_driver seeded 4 \<lparr>DriverBase_name = ''Max Verstappen''\<rparr>
    = (Inr \<lparr>Driver_id = Some ''00000000-0000-4000-8000-000000000004'',
            Driver_name = ''Max Verstappen'', Driver_laps = []\<rparr>,
       snd (create_driver seeded 4 \<lparr>DriverBase_name = ''Max Verstappen''\<rparr>))
   \<and> create_lap (snd (create_driver seeded 4 \<lparr>DriverBase_name = ''Max Verstappen''\<rparr>)) 5
        ''00000000-0000-4000-8000-000000000004''
        \<lparr>LapCreate_lap_time = 78.1, LapCreate_track = ''Spa''\<rparr>
    = (Inr \<lparr>Lap_id = Some ''00000000-0000-4000-8000-000000000005'',
            Lap_lap_time = 78.1, Lap_track = ''Spa''\<rparr>, two_drivers)
   \<and> get_driver two_drivers ''00000000-0000-4000-8000-000000000004''
    = (Inr \<lparr>Driver_id = Some ''00000000-0000-4000-8000-000000000004'',
            Driver_name = ''Max Verstappen'',
            Driver_laps = [\<lparr>Lap_id = Some ''00000000-0000-4000-8000-000000000005'',
                            Lap_lap_time = 78.1, Lap_track = ''Spa''\<rparr>]\<rparr>, two_drivers)"
  using create_round_trip [of seeded 4 "\<lparr>DriverBase_name = ''Max Verstappen''\<rparr>"
      "\<lparr>Driver_id = Some ''00000000-0000-4000-8000-000000000004'',
            Driver_name = ''Max Verstappen'', Driver_laps = []\<rparr>"
      "snd (create_driver seeded 4 \<lparr>DriverBase_name = ''Max Verstappen''\<rparr>)"
      "''00000000-0000-4000-8000-000000000004''" 5
      "\<lparr>LapCreate_lap_time = 78.1, LapCreate_track = ''Spa''\<rparr>"
      "\<lparr>Lap_id = Some ''00000000-0000-4000-8000-000000000005'',
            Lap_lap_time = 78.1, Lap_track = ''Spa''\<rparr>"
      two_drivers]
  by (simp add: two_drivers_eq seeded_eq create_driver_def create_lap_def get_driver_def
      query_driver_def to_Driver_def to_Lap_def relationship_laps_def Let_def uuids)

text \<open>
  C8 as stated fails where it speaks of ids issued earlier: the program keeps no record
  of them. When the generator draws the same 16 bytes again after the driver (the lap)
  that carried the id has been deleted, the create succeeds and issues that id a second
  time.
\<close>

theorem id_issued_twice:
  "fst (step empty_db (CreateDriver 4 \<lparr>DriverBase_name = ''Max Verstappen''\<rparr>))
     = Inr (ADriver \<lparr>Driver_id = Some ''00000000-0000-4000-8000-000000000004'',
                     Driver_name = ''Max Verstappen'', Driver_laps = []\<rparr>)
   \<and> fst (step (run empty_db [CreateDriver 4 \<lparr>DriverBase_name = ''Max Verstappen''\<rparr>,
                                DeleteDriver ''00000000-0000-4000-8000-000000000004''])
             (CreateDriver 4 \<lparr>DriverBase_name = ''Lando Norris''\<rparr>))
     = Inr (ADriver \<lparr>Driver_id = Some ''00000000-0000-4000-8000-000000000004'',
                     Driver_name = ''Lando Norris'', Driver_laps = []\<rparr>)
   \<and> fst (step seeded (CreateLap 5 ''00000000-0000-4000-8000-000000000001''
                          \<lparr>LapCreate_lap_time = 78.1, LapCreate_track = ''Spa''\<rparr>))
     = Inr (ALap \<lparr>Lap_id = Some ''00000000-0000-4000-8000-000000000005'',
                   Lap_lap_time = 78.1, Lap_track = ''Spa''\<rparr>)
   \<and> fst (step (run seeded [CreateLap 5 ''00000000-0000-4000-8000-000000000001''
                               \<lparr>LapCreate_lap_time = 78.1, LapCreate_track = ''Spa''\<rparr>,
                             DeleteLap ''00000000-0000-4000-8000-000000000001''
                               ''00000000-0000-4000-8000-000000000005''])
             (CreateLap 5 ''00000000-0000-4000-8000-000000000001''
                \<lparr>LapCreate_lap_time = 80.3, LapCreate_track = ''Monza''\<rparr>))
     = Inr (ALap \<lparr>Lap_id = Some ''00000000-0000-4000-8000-000000000005'',
                   Lap_lap_time = 80.3, Lap_track = ''Monza''\<rparr>)"
  by (simp add: seeded_eq run_def empty_db_def create_driver_def delete_driver_def create_lap_def
      delete_lap_def query_driver_def query_lap_def to_Driver_def to_Lap_def relationship_laps_def
      Let_def uuids)

text \<open>
  C8, as amended. A \<^verbatim>\<open>create_driver\<close> or \<^verbatim>\<open>create_lap\<close> that succeeds returns an entity
  whose id is present and is the 36 characters of \<^verbatim>\<open>str(uuid.uuid4())\<close>, hence not empty,
  and differs from the id of every row of that table at the time of the call: the new
  row's primary key is appended to those already there. In every reachable state the ids
  of each table are pairwise distinct.
\<close>

theorem fresh_ids:
  "(create_driver s r dc = (Inr D, s') \<longrightarrow>
      Driver_id D = Some (new_uuid r) \<and> new_uuid r \<noteq> [] \<and> length (new_uuid r) = 36
      \<and> new_uuid r \<notin> set (map DriverDB_id (drivers s))
      \<and> map DriverDB_id (drivers s') = map DriverDB_id (drivers s) @ [new_uuid r])
   \<and> (create_lap s q i lap = (Inr L, s'') \<longrightarrow>
      Lap_id L = Some (new_uuid q) \<and> new_uuid q \<noteq> [] \<and> length (new_uuid q) = 36
      \<and> new_uuid q \<notin> set (map LapDB_id (laps s))
      \<and> map LapDB_id (laps s'') = map LapDB_id (laps s) @ [new_uuid q])
   \<and> (reachable s \<longrightarrow>
      distinct (map DriverDB_id (drivers s)) \<and> distinct (map LapDB_id (laps s)))"
proof (intro conjI impI)
  have len: "length (new_uuid w) = 36" for w by (rule length_new_uuid)
  show "length (new_uuid r) = 36" "length (new_uuid q) = 36" by (rule len)+
  from len [of r] show "new_uuid r \<noteq> []" by auto
  from len [of q] show "new_uuid q \<noteq> []" by auto
next
  assume a: "create_driver s r dc = (Inr D, s')"
  note c = create_driver_Inr [OF a]
  from c show "Driver_id D = Some (new_uuid r)" by (simp add: to_Driver_def)
  from c show "new_uuid r \<notin> set (map DriverDB_id (drivers s))" by simp
  from c have "drivers s' = drivers s @ [\<lparr>DriverDB_id = new_uuid r, DriverDB_name = DriverBase_name dc\<rparr>]"
    by simp
  then show "map DriverDB_id (drivers s') = map DriverDB_id (drivers s) @ [new_uuid r]" by simp
next
  assume a: "create_lap s q i lap = (Inr L, s'')"
  note c = create_lap_Inr [OF a]
  from c show "Lap_id L = Some (new_uuid q)" by (simp add: to_Lap_def)
  from c show "new_uuid q \<notin> set (map LapDB_id (laps s))" by simp
  from c have "laps s'' = laps s @ [\<lparr>LapDB_id = new_uuid q, LapDB_lap_time = LapCreate_lap_time lap,
                     LapDB_track = LapCreate_track lap, LapDB_driver_id = i\<rparr>]"
    by simp
  then show "map LapDB_id (laps s'') = map LapDB_id (laps s) @ [new_uuid q]" by simp
next
  assume "reachable s"
  then have "pk_ok s" by (rule reachable_pk_ok)
  then show "distinct (map DriverDB_id (drivers s))" "distinct (map LapDB_id (laps s))"
    by (simp_all add: pk_ok_def)
qed

theorem fresh_ids_witness:
  "create_driver seeded 4 \<lparr>DriverBase_name = ''Max Verstappen''\<rparr>
    = (Inr \<lparr>Driver_id = Some ''00000000-0000-4000-8000-000000000004'',
            Driver_name = ''Max Verstappen'', Driver_laps = []\<rparr>,
       snd (create_driver seeded 4 \<lparr>DriverBase_name = ''Max Verstappen''\<rparr>))
   \<and> ''00000000-0000-4000-8000-000000000004'' \<notin> set (map DriverDB_id (drivers seeded))
   \<and> create_lap seeded 5 ''00000000-0000-4000-8000-000000000001''
        \<lparr>LapCreate_lap_time = 78.1, LapCreate_track = ''Spa''\<rparr>
    = (Inr \<lparr>Lap_id = Some ''00000000-0000-4000-8000-000000000005'',
            Lap_lap_time = 78.1, Lap_track = ''Spa''\<rparr>,
       snd (create_lap seeded 5 ''00000000-0000-4000-8000-000000000001''
              \<lparr>LapCreate_lap_time = 78.1, LapCreate_track = ''Spa''\<rparr>))
   \<and> ''00000000-0000-4000-8000-000000000005'' \<notin> set (map LapDB_id (laps seeded))
   \<and> reachable seeded
   \<and> distinct (map DriverDB_id (drivers seeded)) \<and> distinct (map LapDB_id (laps seeded))"
  using fresh_ids [of seeded 4 "\<lparr>DriverBase_name = ''Max Verstappen''\<rparr>"
      "\<lparr>Driver_id = Some ''00000000-0000-4000-8000-000000000004'',
            Driver_name = ''Max Verstappen'', Driver_laps = []\<rparr>"
      "snd (create_driver seeded 4 \<lparr>DriverBase_name = ''Max Verstappen''\<rparr>)"
      5 "''00000000-0000-4000-8000-000000000001''"
      "\<lparr>LapCreate_lap_time = 78.1, LapCreate_track = ''Spa''\<rparr>"
      "\<lparr>Lap_id = Some ''00000000-0000-4000-8000-000000000005'',
            Lap_lap_time = 78.1, Lap_track = ''Spa''\<rparr>"
      "snd (create_lap seeded 5 ''00000000-0000-4000-8000-000000000001''
              \<lparr>LapCreate_lap_time = 78.1, LapCreate_track = ''Spa''\<rparr>)"]
    reachable_seeded
  by (simp add: seeded_eq create_driver_def create_lap_def query_driver_def to_Driver_def
      to_Lap_def relationship_laps_def Let_def uuids)

text \<open>
  C9. \<^verbatim>\<open>get_laps\<close> raises "Driver not found" when no driver has the id, and otherwise
  returns the laps of that driver and no others, in the order of the table. That order
  is the order of insertion: a lap created under the driver comes last in the driver's
  list, after the laps that were there, and no operation reorders the laps it leaves:
  after any step the ids of the driver's laps are those that remain of the ids before,
  in their old order, followed by ids that were in no row before.
\<close>

theorem get_laps_insertion_order:
  "get_laps s i =
     (if i \<in> set (map DriverDB_id (drivers s))
      then Inr (map to_Lap (filter (\<lambda>l. LapDB_driver_id l = i) (laps s)))
      else Inl DriverNotFound, s)
   \<and> (get_laps s i = (Inr ls, s) \<longrightarrow> map Lap_id ls = map Some (lap_ids_of s i))
   \<and> (create_lap s r i lap = (Inr L, s') \<longrightarrow>
        (\<exists>before. get_laps s i = (Inr before, s) \<and> get_laps s' i = (Inr (before @ [L]), s')))
   \<and> (\<exists>keep new. lap_ids_of (snd (step s x)) i = filter keep (lap_ids_of s i) @ new
          \<and> set new \<inter> set (map LapDB_id (laps s)) = {})"
proof (intro conjI impI)
  show "get_laps s i =
     (if i \<in> set (map DriverDB_id (drivers s))
      then Inr (map to_Lap (filter (\<lambda>l. LapDB_driver_id l = i) (laps s)))
      else Inl DriverNotFound, s)"
    by (rule get_laps_eq)
next
  assume "get_laps s i = (Inr ls, s)"
  then have "ls = map to_Lap (filter (\<lambda>l. LapDB_driver_id l = i) (laps s))"
    unfolding get_laps_eq by (simp split: if_splits)
  then show "map Lap_id ls = map Some (lap_ids_of s i)"
    by (simp add: lap_ids_of_def to_Lap_def comp_def)
next
  assume a: "create_lap s r i lap = (Inr L, s')"
  note c = create_lap_Inr [OF a]
  let ?row = "\<lparr>LapDB_id = new_uuid r, LapDB_lap_time = LapCreate_lap_time lap,
               LapDB_track = LapCreate_track lap, LapDB_driver_id = i\<rparr>"
  from c have i: "i \<in> set (map DriverDB_id (drivers s))" and L: "L = to_Lap ?row"
    and d': "drivers s' = drivers s" and l': "laps s' = laps s @ [?row]"
    by simp_all
  have "get_laps s i = (Inr (map to_Lap (filter (\<lambda>l. LapDB_driver_id l = i) (laps s))), s)"
    unfolding get_laps_eq using i by simp
  moreover have "get_laps s' i
      = (Inr (map to_Lap (filter (\<lambda>l. LapDB_driver_id l = i) (laps s)) @ [L]), s')"
    unfolding get_laps_eq d' l' using i by (simp add: L)
  ultimately show "\<exists>before. get_laps s i = (Inr before, s)
      \<and> get_laps s' i = (Inr (before @ [L]), s')"
    by blast
next
  show "\<exists>keep new. lap_ids_of (snd (step s x)) i = filter keep (lap_ids_of s i) @ new
          \<and> set new \<inter> set (map LapDB_id (laps s)) = {}"
    by (rule step_keeps_order)
qed

theorem get_laps_insertion_order_witness:
  "get_laps seeded ''00000000-0000-4000-8000-000000000001''
    = (Inr [\<lparr>Lap_id = Some ''00000000-0000-4000-8000-000000000002'', Lap_lap_time = 85.4,
              Lap_track = ''Silverstone''\<rparr>,
            \<lparr>Lap_id = Some ''00000000-0000-4000-8000-000000000003'', Lap_lap_time = 86.2,
              Lap_track = ''Monza''\<rparr>], seeded)
   \<and> get_laps seeded ''00000000-0000-4000-8000-000000000009'' = (Inl DriverNotFound, seeded)
   \<and> create_lap seeded 5 ''00000000-0000-4000-8000-000000000001''
        \<lparr>LapCreate_lap_time = 78.1, LapCreate_track = ''Spa''\<rparr>
    = (Inr \<lparr>Lap_id = Some ''00000000-0000-4000-8000-000000000005'', Lap_lap_time = 78.1,
            Lap_track = ''Spa''\<rparr>,
       snd (create_lap seeded 5 ''00000000-0000-4000-8000-000000000001''
              \<lparr>LapCreate_lap_time = 78.1, LapCreate_track = ''Spa''\<rparr>))
   \<and> get_laps (snd (create_lap seeded 5 ''00000000-0000-4000-8000-000000000001''
              \<lparr>LapCreate_lap_time = 78.1, LapCreate_track = ''Spa''\<rparr>))
        ''00000000-0000-4000-8000-000000000001''
    = (Inr [\<lparr>Lap_id = Some ''00000000-0000-4000-8000-000000000002'', Lap_lap_time = 85.4,
              Lap_track = ''Silverstone''\<rparr>,
            \<lparr>Lap_id = Some ''00000000-0000-4000-8000-000000000003'', Lap_lap_time = 86.2,
              Lap_track = ''Monza''\<rparr>,
            \<lparr>Lap_id = Some ''00000000-0000-4000-8000-000000000005'', Lap_lap_time = 78.1,
              Lap_track = ''Spa''\<rparr>],
       snd (create_lap seeded 5 ''00000000-0000-4000-8000-000000000001''
              \<lparr>LapCreate_lap_time = 78.1, LapCreate_track = ''Spa''\<rparr>))"
  using get_laps_insertion_order [of seeded "''00000000-0000-4000-8000-000000000001''"
      "[\<lparr>Lap_id = Some ''00000000-0000-4000-8000-000000000002'', Lap_lap_time = 85.4,
              Lap_track = ''Silverstone''\<rparr>,
            \<lparr>Lap_id = Some ''00000000-0000-4000-8000-000000000003'', Lap_lap_time = 86.2,
              Lap_track = ''Monza''\<rparr>]"
      5 "\<lparr>LapCreate_lap_time = 78.1, LapCreate_track = ''Spa''\<rparr>"
      "\<lparr>Lap_id = Some ''00000000-0000-4000-8000-000000000005'', Lap_lap_time = 78.1,
            Lap_track = ''Spa''\<rparr>"
      "snd (create_lap seeded 5 ''00000000-0000-4000-8000-000000000001''
              \<lparr>LapCreate_lap_time = 78.1, LapCreate_track = ''Spa''\<rparr>)"
      GetDrivers]
    get_laps_insertion_order [of seeded "''00000000-0000-4000-8000-000000000009''"]
  by (simp add: seeded_eq create_lap_def get_laps_def query_driver_def to_Lap_def
      relationship_laps_def Let_def uuids)

text \<open>
  C10. In a reachable state, for a driver id \<open>X\<close> that no driver has and any lap id,
  \<^verbatim>\<open>get_lap\<close>, \<^verbatim>\<open>update_lap\<close> and \<^verbatim>\<open>delete_lap\<close> raise "Lap not found", not
  "Driver not found": they look only for a lap with that id and that owner.
\<close>

theorem lap_of_missing_driver_not_found:
  assumes "reachable s" and "X \<notin> set (map DriverDB_id (drivers s))"
  shows "get_lap s X L = (Inl LapNotFound, s)
       \<and> update_lap s X L u = (Inl LapNotFound, s)
       \<and> delete_lap s X L = (Inl LapNotFound, s)
       \<and> fst (get_lap s X L) \<noteq> Inl DriverNotFound
       \<and> fst (update_lap s X L u) \<noteq> Inl DriverNotFound
       \<and> fst (delete_lap s X L) \<noteq> Inl DriverNotFound"
proof -
  from assms have "\<forall>l \<in> set (laps s). LapDB_driver_id l \<noteq> X"
    using reachable_fk_ok [OF assms(1)] by (auto simp: fk_ok_def)
  then have "query_lap s X L = None"
    by (simp add: query_lap_None)
  then show ?thesis
    by (simp add: get_lap_def update_lap_def delete_lap_def)
qed

theorem lap_of_missing_driver_not_found_witness:
  "reachable two_drivers
   \<and> ''00000000-0000-4000-8000-000000000009'' \<notin> set (map DriverDB_id (drivers two_drivers))
   \<and> get_lap two_drivers ''00000000-0000-4000-8000-000000000009''
        ''00000000-0000-4000-8000-000000000002'' = (Inl LapNotFound, two_drivers)
   \<and> update_lap two_drivers ''00000000-0000-4000-8000-000000000009''
        ''00000000-0000-4000-8000-000000000002''
        \<lparr>LapUpdate_lap_time = 80, LapUpdate_track = ''Spa''\<rparr> = (Inl LapNotFound, two_drivers)
   \<and> delete_lap two_drivers ''00000000-0000-4000-8000-000000000009''
        ''00000000-0000-4000-8000-000000000002'' = (Inl LapNotFound, two_drivers)"
  using lap_of_missing_driver_not_found [OF reachable_two_drivers,
      of "''00000000-0000-4000-8000-000000000009''" "''00000000-0000-4000-8000-000000000002''"
      "\<lparr>LapUpdate_lap_time = 80, LapUpdate_track = ''Spa''\<rparr>"]
    reachable_two_drivers
  by (simp add: two_drivers_eq)

end
